theory Spec2Isabelle
  imports Main "HOL-Library.AList"
begin

section \<open>Data model of the Widget Engine\<close>

text \<open>
  The Widget Engine exists in several variants in the repository: the demo's
  \<^verbatim>\<open>main.tsx\<close> (with \<^verbatim>\<open>parseProps\<close>, \<^verbatim>\<open>unmountWidget\<close> and
  \<^verbatim>\<open>cleanupAllWidgets\<close>), the demo's older \<^verbatim>\<open>main.jsx\<close>, the mount script of the
  technical design (with \<^verbatim>\<open>unmountAllWidgets\<close>) and the \<^verbatim>\<open>main.jsx\<close> of the setup
  checklist (with the \<^verbatim>\<open>ErrorBoundary\<close> and the \<^verbatim>\<open>MutationObserver\<close>). Each variant
  is embedded below under the name it has in the source, with a suffix where the same
  name occurs twice.

  A DOM node is referred to by its identity, a natural number: the \<^verbatim>\<open>Map\<close> of active
  roots compares its keys by reference.
\<close>

text \<open>Values produced by \<^verbatim>\<open>JSON.parse\<close>. The engine never inspects a number.\<close>

datatype json =
    JNull
  | JBool bool
  | JNumber int
  | JString string
  | JArray "json list"
  | JObject "(string \<times> json) list"

text \<open>
  What a lookup \<^verbatim>\<open>registry[componentName]\<close> can yield: a component registered with
  \<^verbatim>\<open>lazy(() => import(path))\<close>, or a member the object literal inherits from
  \<^verbatim>\<open>Object.prototype\<close>.
\<close>

datatype component =
    Lazy string
  | ObjectPrototypeMember string

text \<open>
  The element handed to \<^verbatim>\<open>root.render\<close>. \<open>ComponentEl C ps\<close> is the element
  \<^verbatim>\<open><Component {...props} />\<close> creates: the component and the props object the spread
  builds, as its list of properties. \<open>Suspense f e\<close> carries its fallback \<open>f\<close>;
  \<open>ErrorBoundary n e\<close> carries its \<^verbatim>\<open>widgetName\<close>; \<open>Div cls txt\<close> is a div with its
  \<^verbatim>\<open>className\<close> (empty when it has none) and its text.
\<close>

datatype element =
    Div string string
  | ComponentEl component "(string \<times> json) list"
  | Suspense element element
  | ErrorBoundary string element
  | StrictMode element

text \<open>
  A widget container: its identity and the two entries of its \<^verbatim>\<open>dataset\<close> the engine
  reads (\<^verbatim>\<open>data-widget-component\<close> and \<^verbatim>\<open>data-props\<close>); \<open>None\<close> is an absent
  attribute, read as \<^verbatim>\<open>undefined\<close>.
\<close>

record container =
  nodeId :: nat
  widgetComponent :: "string option"
  props :: "string option"

text \<open>The \<^verbatim>\<open>RootEntry\<close> of \<^verbatim>\<open>widget.types.ts\<close>; a root is named by its number.\<close>

record RootEntry =
  root :: nat
  componentName :: string

text \<open>What the engine writes to the console, by the call site that writes it.\<close>

datatype console_msg =
    AlreadyMounted nat
  | NoWidgetComponent nat
  | ComponentNotFound string
  | InvalidPropsJSON
  | InvalidPropsJSONFor string
  | Mounted string
  | Unmounted string
  | Scanning

text \<open>How a call completed: it returned, or an exception left it.\<close>

datatype completion = Normal | Thrown

text \<open>
  The observable effects, in the order they happen: console output by severity, and the
  calls into React (\<^verbatim>\<open>createRoot(container)\<close>, \<^verbatim>\<open>root.render(element)\<close>,
  \<^verbatim>\<open>root.unmount()\<close> with the way that call completed), and the edit-mode placeholder
  written to a container's \<^verbatim>\<open>innerHTML\<close> (with the component name it shows).
\<close>

datatype effect =
    ConsoleLog console_msg
  | ConsoleWarn console_msg
  | ConsoleError console_msg
  | CreateRoot nat nat
  | RootRender nat element
  | RootUnmount nat completion
  | EditPlaceholder nat string

text \<open>
  The module state: the \<^verbatim>\<open>activeRoots\<close> map in insertion order (the order
  \<^verbatim>\<open>Map.prototype.forEach\<close> visits), the number of the next root \<^verbatim>\<open>createRoot\<close> will
  return, and the effects so far. \<open>'v\<close> is \<open>RootEntry\<close> in \<^verbatim>\<open>main.tsx\<close> and the
  root itself in the JavaScript variants.
\<close>

record 'v engine_state =
  activeRoots :: "(nat \<times> 'v) list"
  nextRoot :: nat
  trace :: "effect list"

text \<open>
  What the engine takes from outside: the own properties of the \<^verbatim>\<open>registry\<close> object
  (a map from property name to component),
  the platform's \<^verbatim>\<open>JSON.parse\<close> (\<open>None\<close> when it throws a \<^verbatim>\<open>SyntaxError\<close>), and
  for each root whether its \<^verbatim>\<open>unmount()\<close> throws.
\<close>

record env =
  registry :: "string \<rightharpoonup> component"
  jsonParse :: "string \<Rightarrow> json option"
  unmountThrows :: "nat \<Rightarrow> bool"

section \<open>JavaScript primitives the engine relies on\<close>

text \<open>
  Truthiness of a value that is a string or \<^verbatim>\<open>undefined\<close>: \<open>truthy s = Some t\<close> when
  \<open>s\<close> is the non-empty string \<open>t\<close>, and \<open>None\<close> when \<^verbatim>\<open>!s\<close> holds.
\<close>

definition truthy :: "string option \<Rightarrow> string option" where
  "truthy s = (case s of None \<Rightarrow> None | Some t \<Rightarrow> if t = [] then None else Some t)"

text \<open>\<^verbatim>\<open>s || d\<close> for such a value.\<close>

definition orElse :: "string option \<Rightarrow> string \<Rightarrow> string" where
  "orElse s d = (case truthy s of None \<Rightarrow> d | Some t \<Rightarrow> t)"

text \<open>The property key a string or \<^verbatim>\<open>undefined\<close> is converted to.\<close>

definition propertyKey :: "string option \<Rightarrow> string" where
  "propertyKey s = (case s of None \<Rightarrow> ''undefined'' | Some t \<Rightarrow> t)"

text \<open>A number as JavaScript writes it when it is a property key: in decimal.\<close>

definition digit :: "nat \<Rightarrow> char" where
  "digit d = ''0123456789'' ! d"

function decimal :: "nat \<Rightarrow> string" where
  "decimal n = (if n < 10 then [digit n] else decimal (n div 10) @ [digit (n mod 10)])"
  by pat_completeness auto
termination
  by (relation "measure id") auto

text \<open>The own enumerable properties of an array, or of a string: one per index.\<close>

definition indexed :: "json list \<Rightarrow> (string \<times> json) list" where
  "indexed xs = map (\<lambda>(i, x). (decimal i, x)) (enumerate 0 xs)"

text \<open>
  The object spread \<^verbatim>\<open>{...v}\<close> of a parsed value, as the list of the properties it
  copies: the properties of an object, the elements of an array under their indices, the
  characters of a string under theirs (each a one-character string), and nothing for a
  number, a boolean or \<^verbatim>\<open>null\<close>.
\<close>

fun spreadProps :: "json \<Rightarrow> (string \<times> json) list" where
  "spreadProps (JObject kvs) = kvs"
| "spreadProps (JArray xs) = indexed xs"
| "spreadProps (JString cs) = indexed (map (\<lambda>ch. JString [ch]) cs)"
| "spreadProps (JNumber n) = []"
| "spreadProps (JBool b) = []"
| "spreadProps JNull = []"

text \<open>The properties every object literal inherits from \<^verbatim>\<open>Object.prototype\<close>.\<close>

definition objectPrototypeKeys :: "string list" where
  "objectPrototypeKeys =
     [''constructor'', ''__defineGetter__'', ''__defineSetter__'', ''hasOwnProperty'',
      ''__lookupGetter__'', ''__lookupSetter__'', ''isPrototypeOf'',
      ''propertyIsEnumerable'', ''toString'', ''valueOf'', ''__proto__'',
      ''toLocaleString'']"

text \<open>
  \<^verbatim>\<open>registry[name]\<close>: an own property first, then the prototype chain; \<open>None\<close> is
  \<^verbatim>\<open>undefined\<close>. Every value found is an object or a function, hence truthy.
\<close>

definition registry_get :: "(string \<rightharpoonup> component) \<Rightarrow> string \<Rightarrow> component option" where
  "registry_get reg name =
     (case reg name of
        Some C \<Rightarrow> Some C
      | None \<Rightarrow>
          if name \<in> set objectPrototypeKeys then Some (ObjectPrototypeMember name)
          else None)"

text \<open>\<^verbatim>\<open>Map.prototype.has\<close>, \<^verbatim>\<open>get\<close>, \<^verbatim>\<open>set\<close>, \<^verbatim>\<open>delete\<close> and \<^verbatim>\<open>clear\<close>.\<close>

definition map_has :: "(nat \<times> 'v) list \<Rightarrow> nat \<Rightarrow> bool" where
  "map_has m k = (k \<in> set (map fst m))"

definition map_get :: "(nat \<times> 'v) list \<Rightarrow> nat \<Rightarrow> 'v option" where
  "map_get m k = map_of m k"

definition map_set :: "nat \<Rightarrow> 'v \<Rightarrow> (nat \<times> 'v) list \<Rightarrow> (nat \<times> 'v) list" where
  "map_set k v m = AList.update k v m"

definition map_delete :: "nat \<Rightarrow> (nat \<times> 'v) list \<Rightarrow> (nat \<times> 'v) list" where
  "map_delete k m = AList.delete k m"

text \<open>Appending one effect to the trace.\<close>

definition emit :: "effect \<Rightarrow> 'v engine_state \<Rightarrow> 'v engine_state" where
  "emit e s = s\<lparr>trace := trace s @ [e]\<rparr>"

text \<open>
  \<^verbatim>\<open>createRoot(container)\<close>: React hands out a new root; the call is recorded.
\<close>

definition createRoot :: "nat \<Rightarrow> 'v engine_state \<Rightarrow> nat \<times> 'v engine_state" where
  "createRoot cid s =
     (nextRoot s, emit (CreateRoot (nextRoot s) cid) (s\<lparr>nextRoot := Suc (nextRoot s)\<rparr>))"

section \<open>The demo engine, \<^verbatim>\<open>main.tsx\<close>\<close>

text \<open>
  \<^verbatim>\<open>parseProps\<close>: an absent or empty string gives \<^verbatim>\<open>{}\<close>; otherwise \<^verbatim>\<open>JSON.parse\<close>,
  and in the \<^verbatim>\<open>catch\<close> branch an error on the console and \<^verbatim>\<open>{}\<close> again.
\<close>

definition parseProps ::
  "env \<Rightarrow> string option \<Rightarrow> 'v engine_state \<Rightarrow> json \<times> 'v engine_state" where
  "parseProps E propsJson s =
     (case truthy propsJson of
        None \<Rightarrow> (JObject [], s)
      | Some text \<Rightarrow>
          (case jsonParse E text of
             Some v \<Rightarrow> (v, s)
           | None \<Rightarrow> (JObject [], emit (ConsoleError InvalidPropsJSON) s)))"

text \<open>
  The tree \<^verbatim>\<open>main.tsx\<close> renders for a component and the parsed props: StrictMode,
  Suspense with an empty skeleton div, and the component with the props spread into it.
\<close>

definition widgetTree :: "component \<Rightarrow> json \<Rightarrow> element" where
  "widgetTree C p =
     StrictMode (Suspense (Div ''skeleton-loader'' []) (ComponentEl C (spreadProps p)))"

definition mountWidget ::
  "env \<Rightarrow> container \<Rightarrow> RootEntry engine_state \<Rightarrow> RootEntry engine_state" where
  "mountWidget E c s =
     (if map_has (activeRoots s) (nodeId c)
      then emit (ConsoleWarn (AlreadyMounted (nodeId c))) s
      else
        (case truthy (widgetComponent c) of
           None \<Rightarrow> emit (ConsoleWarn (NoWidgetComponent (nodeId c))) s
         | Some name \<Rightarrow>
             (case registry_get (registry E) name of
                None \<Rightarrow> emit (ConsoleWarn (ComponentNotFound name)) s
              | Some C \<Rightarrow>
                  (let (p, s1) = parseProps E (props c) s;
                       (r, s2) = createRoot (nodeId c) s1;
                       s3 = emit (RootRender r (widgetTree C p)) s2;
                       s4 = s3\<lparr>activeRoots :=
                              map_set (nodeId c) \<lparr>root = r, componentName = name\<rparr>
                                (activeRoots s3)\<rparr>
                   in emit (ConsoleLog (Mounted name)) s4))))"

text \<open>
  \<^verbatim>\<open>unmountWidget\<close>: nothing without an entry; otherwise \<^verbatim>\<open>entry.root.unmount()\<close>,
  and, when that call returns, the delete and the log line. An exception thrown by
  \<^verbatim>\<open>unmount()\<close> leaves the function before the delete.
\<close>

definition unmountWidget ::
  "env \<Rightarrow> nat \<Rightarrow> RootEntry engine_state \<Rightarrow> completion \<times> RootEntry engine_state" where
  "unmountWidget E cid s =
     (case map_get (activeRoots s) cid of
        None \<Rightarrow> (Normal, s)
      | Some entry \<Rightarrow>
          if unmountThrows E (root entry)
          then (Thrown, emit (RootUnmount (root entry) Thrown) s)
          else
            (let s1 = emit (RootUnmount (root entry) Normal) s;
                 s2 = s1\<lparr>activeRoots := map_delete cid (activeRoots s1)\<rparr>
             in (Normal, emit (ConsoleLog (Unmounted (componentName entry))) s2)))"

text \<open>
  \<^verbatim>\<open>containers.forEach(mountWidget)\<close> over the node list of
  \<^verbatim>\<open>querySelectorAll\<close>, in document order.
\<close>

fun mountEach :: "env \<Rightarrow> container list \<Rightarrow> RootEntry engine_state \<Rightarrow> RootEntry engine_state" where
  "mountEach E [] s = s"
| "mountEach E (c # cs) s = mountEach E cs (mountWidget E c s)"

text \<open>
  \<^verbatim>\<open>initializeWidgets\<close>; the argument is what
  \<^verbatim>\<open>document.querySelectorAll('.react-widget-container')\<close> returns.
\<close>

definition initializeWidgets ::
  "env \<Rightarrow> container list \<Rightarrow> RootEntry engine_state \<Rightarrow> RootEntry engine_state" where
  "initializeWidgets E containers s = mountEach E containers (emit (ConsoleLog Scanning) s)"

text \<open>
  \<^verbatim>\<open>activeRoots.forEach((_entry, container) => unmountWidget(container))\<close>. The keys are
  visited in insertion order; a key deleted before it is reached is not visited; an
  exception ends the iteration and leaves \<^verbatim>\<open>forEach\<close>.
\<close>

fun cleanupEach ::
  "env \<Rightarrow> nat list \<Rightarrow> RootEntry engine_state \<Rightarrow> completion \<times> RootEntry engine_state" where
  "cleanupEach E [] s = (Normal, s)"
| "cleanupEach E (k # ks) s =
     (if map_has (activeRoots s) k
      then (case unmountWidget E k s of
              (Normal, s') \<Rightarrow> cleanupEach E ks s'
            | (Thrown, s') \<Rightarrow> (Thrown, s'))
      else cleanupEach E ks s)"

definition cleanupAllWidgets ::
  "env \<Rightarrow> RootEntry engine_state \<Rightarrow> completion \<times> RootEntry engine_state" where
  "cleanupAllWidgets E s = cleanupEach E (map fst (activeRoots s)) s"

section \<open>The demo's \<^verbatim>\<open>main.jsx\<close>\<close>

text \<open>
  The JavaScript \<^verbatim>\<open>mountWidget\<close> of the demo. The component name is not tested before
  the lookup, so an absent attribute is looked up as \<^verbatim>\<open>registry[undefined]\<close>. The props
  are parsed inline: \<^verbatim>\<open>JSON.parse(container.dataset.props || '{}')\<close> inside
  \<^verbatim>\<open>try\<close>, whose \<^verbatim>\<open>catch\<close> logs an error and returns.
\<close>

definition mountWidget_jsx :: "env \<Rightarrow> container \<Rightarrow> nat engine_state \<Rightarrow> nat engine_state" where
  "mountWidget_jsx E c s =
     (if map_has (activeRoots s) (nodeId c)
      then emit (ConsoleWarn (AlreadyMounted (nodeId c))) s
      else
        (let name = propertyKey (widgetComponent c) in
         case registry_get (registry E) name of
           None \<Rightarrow> emit (ConsoleWarn (ComponentNotFound name)) s
         | Some C \<Rightarrow>
             (case jsonParse E (orElse (props c) ''{}'') of
                None \<Rightarrow> emit (ConsoleError (InvalidPropsJSONFor name)) s
              | Some p \<Rightarrow>
                  (let (r, s1) = createRoot (nodeId c) s;
                       s2 = emit (RootRender r (widgetTree C p)) s1;
                       s3 = s2\<lparr>activeRoots := map_set (nodeId c) r (activeRoots s2)\<rparr>
                   in emit (ConsoleLog (Mounted name)) s3))))"

section \<open>The mount script of the technical design\<close>

text \<open>
  The tree of the technical design: as in \<^verbatim>\<open>main.tsx\<close>, with \<^verbatim>\<open>Loading...\<close> in the
  skeleton div.
\<close>

definition widgetTree_td :: "component \<Rightarrow> json \<Rightarrow> element" where
  "widgetTree_td C p =
     StrictMode (Suspense (Div ''skeleton-loader'' ''Loading...'') (ComponentEl C (spreadProps p)))"

text \<open>
  \<^verbatim>\<open>mountWidget\<close> as the technical design gives it: the guard, the lookup, the inline
  parse with its \<^verbatim>\<open>catch\<close> that returns, \<^verbatim>\<open>createRoot\<close>, \<^verbatim>\<open>render\<close>,
  \<^verbatim>\<open>activeRoots.set(container, root)\<close>. It logs nothing after mounting.
\<close>

definition mountWidget_td :: "env \<Rightarrow> container \<Rightarrow> nat engine_state \<Rightarrow> nat engine_state" where
  "mountWidget_td E c s =
     (if map_has (activeRoots s) (nodeId c)
      then emit (ConsoleWarn (AlreadyMounted (nodeId c))) s
      else
        (let name = propertyKey (widgetComponent c) in
         case registry_get (registry E) name of
           None \<Rightarrow> emit (ConsoleWarn (ComponentNotFound name)) s
         | Some C \<Rightarrow>
             (case jsonParse E (orElse (props c) ''{}'') of
                None \<Rightarrow> emit (ConsoleError (InvalidPropsJSONFor name)) s
              | Some p \<Rightarrow>
                  (let (r, s1) = createRoot (nodeId c) s;
                       s2 = emit (RootRender r (widgetTree_td C p)) s1
                   in s2\<lparr>activeRoots := map_set (nodeId c) r (activeRoots s2)\<rparr>))))"

text \<open>
  \<^verbatim>\<open>activeRoots.forEach((root) => { root.unmount(); })\<close>: the roots in insertion
  order; an exception thrown by one \<^verbatim>\<open>unmount()\<close> ends the iteration.
\<close>

fun unmountEach_td :: "env \<Rightarrow> nat list \<Rightarrow> nat engine_state \<Rightarrow> completion \<times> nat engine_state" where
  "unmountEach_td E [] s = (Normal, s)"
| "unmountEach_td E (r # rs) s =
     (if unmountThrows E r then (Thrown, emit (RootUnmount r Thrown) s)
      else unmountEach_td E rs (emit (RootUnmount r Normal) s))"

text \<open>
  \<^verbatim>\<open>unmountAllWidgets\<close>: the \<^verbatim>\<open>forEach\<close>, then \<^verbatim>\<open>activeRoots.clear()\<close>, which is
  reached only when the \<^verbatim>\<open>forEach\<close> returned.
\<close>

definition unmountAllWidgets_td :: "env \<Rightarrow> nat engine_state \<Rightarrow> completion \<times> nat engine_state" where
  "unmountAllWidgets_td E s =
     (case unmountEach_td E (map snd (activeRoots s)) s of
        (Normal, s') \<Rightarrow> (Normal, s'\<lparr>activeRoots := []\<rparr>)
      | (Thrown, s') \<Rightarrow> (Thrown, s'))"

section \<open>The \<^verbatim>\<open>main.jsx\<close> of the setup checklist\<close>

text \<open>
  The tree this variant renders: StrictMode, the \<^verbatim>\<open>ErrorBoundary\<close> with the widget's
  name, Suspense with a loading div, the component.
\<close>

definition guardedTree :: "string \<Rightarrow> component \<Rightarrow> json \<Rightarrow> element" where
  "guardedTree name C p =
     StrictMode
       (ErrorBoundary name (Suspense (Div [] ''Loading...'') (ComponentEl C (spreadProps p))))"

text \<open>
  \<^verbatim>\<open>mountWidget\<close> of the checklist. \<open>editMode\<close> is \<^verbatim>\<open>getWCMMode() === 'edit'\<close>. The
  guards return silently; in edit mode a placeholder replaces the container's content and
  no root is created. \<^verbatim>\<open>createRoot\<close> and \<^verbatim>\<open>render\<close> sit in a \<^verbatim>\<open>try\<close> whose
  \<^verbatim>\<open>catch\<close> logs; on an element node neither call throws.
\<close>

definition mountWidget_checklist ::
  "env \<Rightarrow> bool \<Rightarrow> container \<Rightarrow> nat engine_state \<Rightarrow> nat engine_state" where
  "mountWidget_checklist E editMode c s =
     (if map_has (activeRoots s) (nodeId c) then s
      else
        (case truthy (widgetComponent c) of
           None \<Rightarrow> s
         | Some name \<Rightarrow>
             (case registry_get (registry E) name of
                None \<Rightarrow> emit (ConsoleWarn (ComponentNotFound name)) s
              | Some C \<Rightarrow>
                  (case jsonParse E (orElse (props c) ''{}'') of
                     None \<Rightarrow> emit (ConsoleError (InvalidPropsJSONFor name)) s
                   | Some p \<Rightarrow>
                       if editMode then emit (EditPlaceholder (nodeId c) name) s
                       else
                         (let (r, s1) = createRoot (nodeId c) s;
                              s2 = emit (RootRender r (guardedTree name C p)) s1
                          in s2\<lparr>activeRoots := map_set (nodeId c) r (activeRoots s2)\<rparr>)))))"

text \<open>\<^verbatim>\<open>initWidgets\<close>: \<^verbatim>\<open>scope.querySelectorAll(WIDGET_SELECTOR).forEach(mountWidget)\<close>.\<close>

fun initWidgets ::
  "env \<Rightarrow> bool \<Rightarrow> container list \<Rightarrow> nat engine_state \<Rightarrow> nat engine_state" where
  "initWidgets E editMode [] s = s"
| "initWidgets E editMode (c # cs) s =
     initWidgets E editMode cs (mountWidget_checklist E editMode c s)"

text \<open>
  A node of the document as a mutation record reports it: identity, \<^verbatim>\<open>nodeType\<close> (1 for
  an element) and child nodes.
\<close>

datatype dom_node = DomNode (nodeIdent: nat) (nodeType: nat) (childNodes: "dom_node list")

text \<open>The identities of a node and of everything below it.\<close>

fun subtreeIds :: "dom_node \<Rightarrow> nat list" where
  "subtreeIds (DomNode i t cs) = i # concat (map subtreeIds cs)"

text \<open>A \<^verbatim>\<open>MutationRecord\<close>, of which the observer reads \<^verbatim>\<open>removedNodes\<close> only.\<close>

record mutation_record =
  removedNodes :: "dom_node list"

text \<open>
  The body of the inner \<^verbatim>\<open>forEach\<close> of the cleanup observer: if the removed node is an
  element and a key of \<^verbatim>\<open>activeRoots\<close>, unmount its root and delete the key.
\<close>

definition observeRemoved :: "env \<Rightarrow> dom_node \<Rightarrow> nat engine_state \<Rightarrow> completion \<times> nat engine_state" where
  "observeRemoved E node s =
     (if nodeType node = 1 \<and> map_has (activeRoots s) (nodeIdent node)
      then
        (case map_get (activeRoots s) (nodeIdent node) of
           None \<Rightarrow> (Thrown, s)
         | Some r \<Rightarrow>
             if unmountThrows E r then (Thrown, emit (RootUnmount r Thrown) s)
             else
               (let s1 = emit (RootUnmount r Normal) s
                in (Normal,
                    s1\<lparr>activeRoots := map_delete (nodeIdent node) (activeRoots s1)\<rparr>)))
      else (Normal, s))"

fun observeRemovedNodes ::
  "env \<Rightarrow> dom_node list \<Rightarrow> nat engine_state \<Rightarrow> completion \<times> nat engine_state" where
  "observeRemovedNodes E [] s = (Normal, s)"
| "observeRemovedNodes E (n # ns) s =
     (case observeRemoved E n s of
        (Normal, s') \<Rightarrow> observeRemovedNodes E ns s'
      | (Thrown, s') \<Rightarrow> (Thrown, s'))"

text \<open>The callback given to \<^verbatim>\<open>new MutationObserver\<close>, applied to one batch of records.\<close>

fun observer ::
  "env \<Rightarrow> mutation_record list \<Rightarrow> nat engine_state \<Rightarrow> completion \<times> nat engine_state" where
  "observer E [] s = (Normal, s)"
| "observer E (m # ms) s =
     (case observeRemovedNodes E (removedNodes m) s of
        (Normal, s') \<Rightarrow> observer E ms s'
      | (Thrown, s') \<Rightarrow> (Thrown, s'))"

section \<open>The \<^verbatim>\<open>ErrorBoundary\<close> and what a root shows\<close>

text \<open>
  The state of the \<^verbatim>\<open>ErrorBoundary\<close> class, its constructor's initial state and
  \<^verbatim>\<open>getDerivedStateFromError\<close>.
\<close>

record boundary_state =
  hasError :: bool

definition initialBoundary :: boundary_state where
  "initialBoundary = \<lparr>hasError = False\<rparr>"

definition getDerivedStateFromError :: "boundary_state \<Rightarrow> boundary_state" where
  "getDerivedStateFromError b = b\<lparr>hasError := True\<rparr>"

text \<open>
  What ends up in a container: a component's own output, a plain div, or the
  \<^verbatim>\<open>Widget Error\<close> box of the boundary (with the widget's name).
\<close>

datatype shown =
    ShownWidget component "(string \<times> json) list"
  | ShownDiv string string
  | ShownWidgetError string

text \<open>
  Rendering an element, given which components throw while rendering: \<open>None\<close> when the
  error leaves the element uncaught. A boundary renders its children; when they throw,
  React calls \<^verbatim>\<open>getDerivedStateFromError\<close> and renders the boundary again, whose
  \<^verbatim>\<open>render()\<close> then returns the error box. Suspense and StrictMode pass their child's
  result on (the lazy component is taken as loaded).
\<close>

fun renderElement :: "(component \<Rightarrow> bool) \<Rightarrow> element \<Rightarrow> shown option" where
  "renderElement fails (Div cls t) = Some (ShownDiv cls t)"
| "renderElement fails (ComponentEl C p) = (if fails C then None else Some (ShownWidget C p))"
| "renderElement fails (Suspense f e) = renderElement fails e"
| "renderElement fails (StrictMode e) = renderElement fails e"
| "renderElement fails (ErrorBoundary name e) =
     (case renderElement fails e of
        Some out \<Rightarrow> Some out
      | None \<Rightarrow>
          if hasError (getDerivedStateFromError initialBoundary)
          then Some (ShownWidgetError name) else None)"

text \<open>Whether an element has an \<^verbatim>\<open>ErrorBoundary\<close> around its component.\<close>

fun wrapsInErrorBoundary :: "element \<Rightarrow> bool" where
  "wrapsInErrorBoundary (Div cls t) = False"
| "wrapsInErrorBoundary (ComponentEl C p) = False"
| "wrapsInErrorBoundary (Suspense f e) = wrapsInErrorBoundary e"
| "wrapsInErrorBoundary (StrictMode e) = wrapsInErrorBoundary e"
| "wrapsInErrorBoundary (ErrorBoundary name e) = True"

section \<open>The demo's registry and sample inputs\<close>

text \<open>The \<^verbatim>\<open>registry\<close> object of the demo.\<close>

definition demoRegistry :: "string \<rightharpoonup> component" where
  "demoRegistry =
     map_of
       [(''ProductCard'', Lazy ''./components/ProductCard''),
        (''Calculator'', Lazy ''./components/Calculator'')]"

text \<open>
  \<^verbatim>\<open>JSON.parse\<close> on the texts the examples below use, which it accepts; it rejects
  \<^verbatim>\<open>{not valid json\<close>. The examples apply it to no other text; every general statement
  below holds for an arbitrary \<open>jsonParse\<close>.
\<close>

definition jsonParseSample :: "string \<Rightarrow> json option" where
  "jsonParseSample text =
     map_of
       [(''{}'', JObject []),
        (''42'', JNumber 42),
        (''[1,2]'', JArray [JNumber 1, JNumber 2]),
        (''null'', JNull),
        (''true'', JBool True)] text"

definition demoEnv :: env where
  "demoEnv = \<lparr>registry = demoRegistry, jsonParse = jsonParseSample, unmountThrows = (\<lambda>r. False)\<rparr>"

text \<open>The module state at load time: no active root, nothing on the console.\<close>

definition initialState :: "'v engine_state" where
  "initialState = \<lparr>activeRoots = [], nextRoot = 0, trace = []\<rparr>"

text \<open>The console output that reports a problem: warnings and errors.\<close>

fun isDiagnostic :: "effect \<Rightarrow> bool" where
  "isDiagnostic (ConsoleWarn m) = True"
| "isDiagnostic (ConsoleError m) = True"
| "isDiagnostic e = False"

definition diagnostics :: "effect list \<Rightarrow> effect list" where
  "diagnostics tr = filter isDiagnostic tr"

section \<open>Notions used to state the properties\<close>

text \<open>The roots on which \<^verbatim>\<open>unmount()\<close> was called, in the order of the calls.\<close>

fun unmountCalls :: "effect list \<Rightarrow> nat list" where
  "unmountCalls [] = []"
| "unmountCalls (RootUnmount r out # es) = r # unmountCalls es"
| "unmountCalls (e # es) = unmountCalls es"

text \<open>
  What \<^verbatim>\<open>parseProps\<close> returns and what it writes to the console, separately.
\<close>

definition parsedValue :: "env \<Rightarrow> string option \<Rightarrow> json" where
  "parsedValue E propsJson =
     (case truthy propsJson of
        None \<Rightarrow> JObject []
      | Some text \<Rightarrow> (case jsonParse E text of Some v \<Rightarrow> v | None \<Rightarrow> JObject []))"

definition parseEffects :: "env \<Rightarrow> string option \<Rightarrow> effect list" where
  "parseEffects E propsJson =
     (case truthy propsJson of
        None \<Rightarrow> []
      | Some text \<Rightarrow>
          (case jsonParse E text of Some v \<Rightarrow> [] | None \<Rightarrow> [ConsoleError InvalidPropsJSON]))"

text \<open>
  The warning the guards of \<^verbatim>\<open>mountWidget\<close> (\<^verbatim>\<open>main.tsx\<close>) give for a container they
  turn away: already mounted, no component name, or a name the registry does not resolve.
\<close>

definition guardWarning :: "env \<Rightarrow> RootEntry engine_state \<Rightarrow> container \<Rightarrow> effect" where
  "guardWarning E s c =
     (if map_has (activeRoots s) (nodeId c) then ConsoleWarn (AlreadyMounted (nodeId c))
      else case truthy (widgetComponent c) of
             None \<Rightarrow> ConsoleWarn (NoWidgetComponent (nodeId c))
           | Some name \<Rightarrow> ConsoleWarn (ComponentNotFound name))"

text \<open>A container that \<^verbatim>\<open>mountWidget\<close> (\<^verbatim>\<open>main.tsx\<close>) turns away in state \<open>s\<close>.\<close>

definition settled :: "env \<Rightarrow> RootEntry engine_state \<Rightarrow> container \<Rightarrow> bool" where
  "settled E s c =
     (map_has (activeRoots s) (nodeId c) \<or>
      (case truthy (widgetComponent c) of
         None \<Rightarrow> True
       | Some name \<Rightarrow> registry_get (registry E) name = None))"

text \<open>
  The elements of a list up to and including the first for which a call throws, and the
  elements from that one on: what an iteration that an exception ends has reached, and
  what it has not completed.
\<close>

definition attempted :: "('a \<Rightarrow> bool) \<Rightarrow> 'a list \<Rightarrow> 'a list" where
  "attempted throws xs = take (Suc (length (takeWhile (\<lambda>x. \<not> throws x) xs))) xs"

definition notCompleted :: "('a \<Rightarrow> bool) \<Rightarrow> 'a list \<Rightarrow> 'a list" where
  "notCompleted throws xs = dropWhile (\<lambda>x. \<not> throws x) xs"

text \<open>
  The live roots, as pairs of container and root, in creation order. A root is live from
  its \<^verbatim>\<open>createRoot\<close> until an \<^verbatim>\<open>unmount()\<close> on it has returned: after an
  \<^verbatim>\<open>unmount()\<close> that threw, the root still counts as live.
\<close>

definition liveStep :: "(nat \<times> nat) list \<Rightarrow> effect \<Rightarrow> (nat \<times> nat) list" where
  "liveStep live e =
     (case e of
        CreateRoot r cid \<Rightarrow> live @ [(cid, r)]
      | RootUnmount r out \<Rightarrow>
          (case out of Normal \<Rightarrow> filter (\<lambda>p. snd p \<noteq> r) live | Thrown \<Rightarrow> live)
      | _ \<Rightarrow> live)"

definition liveRoots :: "effect list \<Rightarrow> (nat \<times> nat) list" where
  "liveRoots tr = foldl liveStep [] tr"

text \<open>
  The other reading: the roots on which \<^verbatim>\<open>unmount()\<close> has not been called at all,
  so that a root counts as gone as soon as \<^verbatim>\<open>unmount()\<close> is called on it, whether
  that call returns or throws.
\<close>

definition uncalledStep :: "(nat \<times> nat) list \<Rightarrow> effect \<Rightarrow> (nat \<times> nat) list" where
  "uncalledStep live e =
     (case e of
        CreateRoot r cid \<Rightarrow> live @ [(cid, r)]
      | RootUnmount r out \<Rightarrow> filter (\<lambda>p. snd p \<noteq> r) live
      | _ \<Rightarrow> live)"

definition uncalledRoots :: "effect list \<Rightarrow> (nat \<times> nat) list" where
  "uncalledRoots tr = foldl uncalledStep [] tr"

text \<open>The pairs of container and root the tracking table of \<^verbatim>\<open>main.tsx\<close> holds.\<close>

definition trackedRoots :: "RootEntry engine_state \<Rightarrow> (nat \<times> nat) list" where
  "trackedRoots s = map (\<lambda>p. (fst p, root (snd p))) (activeRoots s)"

text \<open>
  The tracking invariant of \<^verbatim>\<open>main.tsx\<close>: one entry per container, one container per
  root, every tracked root handed out by an earlier \<^verbatim>\<open>createRoot\<close>, the table holding
  exactly the live roots, and every root on which \<^verbatim>\<open>unmount()\<close> was never called being
  in the table, once.
\<close>

definition tracked_live :: "RootEntry engine_state \<Rightarrow> bool" where
  "tracked_live s =
     (distinct (map fst (activeRoots s)) \<and>
      distinct (map snd (trackedRoots s)) \<and>
      list_all (\<lambda>p. snd p < nextRoot s) (trackedRoots s) \<and>
      liveRoots (trace s) = trackedRoots s \<and>
      distinct (uncalledRoots (trace s)) \<and>
      list_all (\<lambda>p. p \<in> set (trackedRoots s)) (uncalledRoots (trace s)))"

subsection \<open>Sample documents\<close>

definition productCardContainer :: container where
  "productCardContainer = \<lparr>nodeId = 1, widgetComponent = Some ''ProductCard'', props = None\<rparr>"

definition calculatorContainer :: container where
  "calculatorContainer = \<lparr>nodeId = 2, widgetComponent = Some ''Calculator'', props = Some []\<rparr>"

definition malformedContainer :: container where
  "malformedContainer =
     \<lparr>nodeId = 1, widgetComponent = Some ''ProductCard'', props = Some ''{not valid json''\<rparr>"

definition inheritedNameContainer :: container where
  "inheritedNameContainer = \<lparr>nodeId = 1, widgetComponent = Some ''constructor'', props = None\<rparr>"

definition missingContainer :: container where
  "missingContainer = \<lparr>nodeId = 1, widgetComponent = Some ''Missing'', props = None\<rparr>"

definition scalarContainer :: container where
  "scalarContainer = \<lparr>nodeId = 1, widgetComponent = Some ''ProductCard'', props = Some ''42''\<rparr>"

definition arrayContainer :: container where
  "arrayContainer = \<lparr>nodeId = 2, widgetComponent = Some ''Calculator'', props = Some ''[1,2]''\<rparr>"

text \<open>The demo page after one scan by \<^verbatim>\<open>main.tsx\<close>: one widget, and two widgets.\<close>

definition productCardMounted :: "RootEntry engine_state" where
  "productCardMounted = initializeWidgets demoEnv [productCardContainer] initialState"

definition twoWidgets :: "RootEntry engine_state" where
  "twoWidgets = initializeWidgets demoEnv [productCardContainer, calculatorContainer] initialState"

text \<open>The same two widgets mounted by the mount script of the technical design.\<close>

definition twoWidgets_td :: "nat engine_state" where
  "twoWidgets_td =
     mountWidget_td demoEnv calculatorContainer
       (mountWidget_td demoEnv productCardContainer initialState)"

text \<open>An environment in which \<^verbatim>\<open>unmount()\<close> of root 0 throws.\<close>

definition throwingEnv :: env where
  "throwingEnv = demoEnv\<lparr>unmountThrows := (\<lambda>r. r = 0)\<rparr>"

text \<open>
  A widget container (node 2) inside a wrapper element (node 1), mounted by the
  checklist's \<^verbatim>\<open>initWidgets\<close> outside edit mode.
\<close>

definition widgetNode :: dom_node where
  "widgetNode = DomNode 2 1 []"

definition wrapperNode :: dom_node where
  "wrapperNode = DomNode 1 1 [widgetNode]"

definition nestedMounted :: "nat engine_state" where
  "nestedMounted = initWidgets demoEnv False [calculatorContainer] initialState"

section \<open>Basic facts\<close>

declare decimal.simps [simp del]

lemmas js_defs = truthy_def orElse_def propertyKey_def registry_get_def objectPrototypeKeys_def
  map_has_def map_get_def map_set_def map_delete_def createRoot_def emit_def

lemmas sample_defs = demoEnv_def demoRegistry_def jsonParseSample_def initialState_def
  throwingEnv_def productCardContainer_def calculatorContainer_def malformedContainer_def
  inheritedNameContainer_def missingContainer_def scalarContainer_def arrayContainer_def widgetNode_def
  wrapperNode_def widgetTree_def widgetTree_td_def guardedTree_def

lemma truthy_Some_iff: "truthy x = Some t \<longleftrightarrow> x = Some t \<and> t \<noteq> []"
  by (auto simp: truthy_def split: option.splits)

lemma truthy_None_iff: "truthy x = None \<longleftrightarrow> x = None \<or> x = Some []"
  by (auto simp: truthy_def split: option.splits)

lemma update_fresh: "k \<notin> fst ` set m \<Longrightarrow> AList.update k v m = m @ [(k, v)]"
  by (induction m) auto

lemma unmountCalls_append: "unmountCalls (xs @ ys) = unmountCalls xs @ unmountCalls ys"
  by (induction xs rule: unmountCalls.induct) auto

lemma decimal_digit: "n < 10 \<Longrightarrow> decimal n = [digit n]"
  by (simp add: decimal.simps)

lemma indexed_Nil [simp]: "indexed [] = []"
  by (simp add: indexed_def)

lemma parseProps_eq:
  "parseProps E pj s = (parsedValue E pj, s\<lparr>trace := trace s @ parseEffects E pj\<rparr>)"
  by (simp add: parseProps_def parsedValue_def parseEffects_def emit_def split: option.splits)

subsection \<open>The four ways through \<^verbatim>\<open>mountWidget\<close> of \<^verbatim>\<open>main.tsx\<close>\<close>

lemma mountWidget_tracked:
  "map_has (activeRoots s) (nodeId c) \<Longrightarrow>
   mountWidget E c s = emit (ConsoleWarn (AlreadyMounted (nodeId c))) s"
  by (simp add: mountWidget_def)

lemma mountWidget_noName:
  "\<not> map_has (activeRoots s) (nodeId c) \<Longrightarrow> truthy (widgetComponent c) = None \<Longrightarrow>
   mountWidget E c s = emit (ConsoleWarn (NoWidgetComponent (nodeId c))) s"
  by (simp add: mountWidget_def)

lemma mountWidget_notFound:
  "\<not> map_has (activeRoots s) (nodeId c) \<Longrightarrow> truthy (widgetComponent c) = Some name \<Longrightarrow>
   registry_get (registry E) name = None \<Longrightarrow>
   mountWidget E c s = emit (ConsoleWarn (ComponentNotFound name)) s"
  by (simp add: mountWidget_def)

lemma mountWidget_mounts:
  "\<not> map_has (activeRoots s) (nodeId c) \<Longrightarrow> truthy (widgetComponent c) = Some name \<Longrightarrow>
   registry_get (registry E) name = Some C \<Longrightarrow>
   mountWidget E c s =
     s\<lparr>activeRoots := activeRoots s @ [(nodeId c, \<lparr>root = nextRoot s, componentName = name\<rparr>)],
       nextRoot := Suc (nextRoot s),
       trace := trace s @ parseEffects E (props c) @
         [CreateRoot (nextRoot s) (nodeId c),
          RootRender (nextRoot s) (widgetTree C (parsedValue E (props c))),
          ConsoleLog (Mounted name)]\<rparr>"
  by (simp add: mountWidget_def parseProps_eq createRoot_def emit_def map_set_def map_has_def
      update_fresh)

text \<open>
  The mount script of the technical design, where it mounts: the name resolves and the
  text \<^verbatim>\<open>dataset.props || '{}'\<close> parses.
\<close>

lemma mountWidget_td_mounts:
  "\<not> map_has (activeRoots t) (nodeId c) \<Longrightarrow>
   registry_get (registry E) (propertyKey (widgetComponent c)) = Some C \<Longrightarrow>
   jsonParse E (orElse (props c) ''{}'') = Some v \<Longrightarrow>
   mountWidget_td E c t =
     t\<lparr>activeRoots := activeRoots t @ [(nodeId c, nextRoot t)],
       nextRoot := Suc (nextRoot t),
       trace := trace t @
         [CreateRoot (nextRoot t) (nodeId c), RootRender (nextRoot t) (widgetTree_td C v)]\<rparr>"
  by (simp add: mountWidget_td_def createRoot_def emit_def map_set_def map_has_def update_fresh)

text \<open>
  The sibling variants return from their \<^verbatim>\<open>catch\<close>: a text \<^verbatim>\<open>JSON.parse\<close> rejects
  leaves the table and the roots as they were.
\<close>

lemma mountWidget_jsx_malformed:
  "\<not> map_has (activeRoots t) (nodeId c) \<Longrightarrow>
   registry_get (registry E) (propertyKey (widgetComponent c)) = Some C \<Longrightarrow>
   jsonParse E (orElse (props c) ''{}'') = None \<Longrightarrow>
   mountWidget_jsx E c t =
     emit (ConsoleError (InvalidPropsJSONFor (propertyKey (widgetComponent c)))) t"
  by (simp add: mountWidget_jsx_def)

lemma mountWidget_td_malformed:
  "\<not> map_has (activeRoots t) (nodeId c) \<Longrightarrow>
   registry_get (registry E) (propertyKey (widgetComponent c)) = Some C \<Longrightarrow>
   jsonParse E (orElse (props c) ''{}'') = None \<Longrightarrow>
   mountWidget_td E c t =
     emit (ConsoleError (InvalidPropsJSONFor (propertyKey (widgetComponent c)))) t"
  by (simp add: mountWidget_td_def)

text \<open>\<^verbatim>\<open>main.tsx\<close> on the same input: the error is logged and the widget mounted.\<close>

lemma mountWidget_malformed:
  "\<not> map_has (activeRoots s) (nodeId c) \<Longrightarrow> truthy (widgetComponent c) = Some name \<Longrightarrow>
   registry_get (registry E) name = Some C \<Longrightarrow> truthy (props c) = Some text \<Longrightarrow>
   jsonParse E text = None \<Longrightarrow>
   mountWidget E c s =
     s\<lparr>activeRoots := activeRoots s @ [(nodeId c, \<lparr>root = nextRoot s, componentName = name\<rparr>)],
       nextRoot := Suc (nextRoot s),
       trace := trace s @
         [ConsoleError InvalidPropsJSON,
          CreateRoot (nextRoot s) (nodeId c),
          RootRender (nextRoot s) (widgetTree C (JObject [])),
          ConsoleLog (Mounted name)]\<rparr>"
  by (simp add: mountWidget_mounts parseEffects_def parsedValue_def)

text \<open>A name that is neither registered nor inherited is turned away.\<close>

lemma registry_get_None_iff:
  "registry_get reg name = None \<longleftrightarrow> reg name = None \<and> name \<notin> set objectPrototypeKeys"
  by (simp add: registry_get_def split: option.splits)

text \<open>
  The second scenario of the specification: one mount point naming \<^verbatim>\<open>Missing\<close>; the scan
  tracks nothing and warns once that the component is not in the registry.
\<close>

lemma scan_missing_component:
  "activeRoots (initializeWidgets demoEnv [missingContainer] initialState) = [] \<and>
   diagnostics (trace (initializeWidgets demoEnv [missingContainer] initialState)) =
     [ConsoleWarn (ComponentNotFound ''Missing'')]"
  by (simp add: initializeWidgets_def mountWidget_def diagnostics_def js_defs sample_defs)

text \<open>
  The observer on a removed node that is itself a tracked element: one \<^verbatim>\<open>unmount()\<close>
  on its root, and, that call having returned, the key deleted.
\<close>

lemma observeRemoved_tracked:
  assumes "nodeType node = 1" and "map_get (activeRoots s) (nodeIdent node) = Some r"
    and "\<not> unmountThrows E r"
  shows "observeRemoved E node s =
     (Normal, s\<lparr>activeRoots := map_delete (nodeIdent node) (activeRoots s),
                trace := trace s @ [RootUnmount r Normal]\<rparr>)"
proof -
  from assms(2) have "(nodeIdent node, r) \<in> set (activeRoots s)"
    unfolding map_get_def by (rule map_of_SomeD)
  then have "map_has (activeRoots s) (nodeIdent node)"
    by (force simp: map_has_def)
  then show ?thesis
    using assms by (simp add: observeRemoved_def emit_def Let_def)
qed

lemma observeRemoved_untracked:
  "\<not> map_has (activeRoots s) (nodeIdent node) \<Longrightarrow> observeRemoved E node s = (Normal, s)"
  by (simp add: observeRemoved_def)

lemma wrapsInErrorBoundary_widgetTree: "wrapsInErrorBoundary (widgetTree C p) = False"
  by (simp add: widgetTree_def)

lemma wrapsInErrorBoundary_guardedTree: "wrapsInErrorBoundary (guardedTree name C p) = True"
  by (simp add: guardedTree_def)

subsection \<open>The sample states, computed\<close>

lemma productCardMounted_eq:
  "productCardMounted =
     \<lparr>activeRoots = [(1, \<lparr>root = 0, componentName = ''ProductCard''\<rparr>)], nextRoot = 1,
      trace = [ConsoleLog Scanning, CreateRoot 0 1,
               RootRender 0
                 (StrictMode (Suspense (Div ''skeleton-loader'' [])
                 (ComponentEl (Lazy ''./components/ProductCard'') []))),
               ConsoleLog (Mounted ''ProductCard'')]\<rparr>"
  by (simp add: productCardMounted_def initializeWidgets_def mountWidget_def parseProps_def
      js_defs sample_defs)

lemma twoWidgets_eq:
  "twoWidgets =
     \<lparr>activeRoots = [(1, \<lparr>root = 0, componentName = ''ProductCard''\<rparr>),
                     (2, \<lparr>root = 1, componentName = ''Calculator''\<rparr>)],
      nextRoot = 2,
      trace = [ConsoleLog Scanning, CreateRoot 0 1,
               RootRender 0
                 (StrictMode (Suspense (Div ''skeleton-loader'' [])
                 (ComponentEl (Lazy ''./components/ProductCard'') []))),
               ConsoleLog (Mounted ''ProductCard''), CreateRoot 1 2,
               RootRender 1
                 (StrictMode (Suspense (Div ''skeleton-loader'' [])
                 (ComponentEl (Lazy ''./components/Calculator'') []))),
               ConsoleLog (Mounted ''Calculator'')]\<rparr>"
  by (simp add: twoWidgets_def initializeWidgets_def mountWidget_def parseProps_def
      js_defs sample_defs)

lemma twoWidgets_td_eq:
  "twoWidgets_td =
     \<lparr>activeRoots = [(1, 0), (2, 1)], nextRoot = 2,
      trace = [CreateRoot 0 1,
               RootRender 0
                 (StrictMode (Suspense (Div ''skeleton-loader'' ''Loading...'')
                 (ComponentEl (Lazy ''./components/ProductCard'') []))),
               CreateRoot 1 2,
               RootRender 1
                 (StrictMode (Suspense (Div ''skeleton-loader'' ''Loading...'')
                 (ComponentEl (Lazy ''./components/Calculator'') [])))]\<rparr>"
  by (simp add: twoWidgets_td_def mountWidget_td_def js_defs sample_defs)

lemma nestedMounted_eq:
  "nestedMounted =
     \<lparr>activeRoots = [(2, 0)], nextRoot = 1,
      trace = [CreateRoot 0 2,
               RootRender 0
                 (StrictMode (ErrorBoundary ''Calculator''
                    (Suspense (Div [] ''Loading...'')
                       (ComponentEl (Lazy ''./components/Calculator'') []))))]\<rparr>"
  by (simp add: nestedMounted_def mountWidget_checklist_def js_defs sample_defs)

section \<open>Scanning a document again\<close>

lemma guardWarning_trace [simp]: "guardWarning E (s\<lparr>trace := t\<rparr>) = guardWarning E s"
  by (rule ext) (simp add: guardWarning_def)

lemma settled_trace [simp]: "settled E (s\<lparr>trace := t\<rparr>) = settled E s"
  by (rule ext) (simp add: settled_def)

lemma guardWarning_emit [simp]: "guardWarning E (emit e s) = guardWarning E s"
  by (simp add: emit_def)

lemma settled_emit [simp]: "settled E (emit e s) = settled E s"
  by (simp add: emit_def)

lemma mountWidget_settled:
  "settled E s c \<Longrightarrow> mountWidget E c s = emit (guardWarning E s c) s"
  by (auto simp: settled_def guardWarning_def mountWidget_def split: option.splits)

lemma keys_mountWidget:
  "set (map fst (activeRoots s)) \<subseteq> set (map fst (activeRoots (mountWidget E c s)))"
  by (auto simp: mountWidget_def parseProps_eq createRoot_def emit_def map_set_def Let_def
      dom_update split: option.splits)

lemma settled_mono:
  "settled E s c \<Longrightarrow> set (map fst (activeRoots s)) \<subseteq> set (map fst (activeRoots s')) \<Longrightarrow>
   settled E s' c"
  by (auto simp: settled_def map_has_def)

lemma settled_after_mount: "settled E (mountWidget E c s) c"
  by (auto simp: settled_def mountWidget_def parseProps_eq createRoot_def emit_def map_set_def
      map_has_def Let_def dom_update split: option.splits)

lemma keys_mountEach:
  "set (map fst (activeRoots s)) \<subseteq> set (map fst (activeRoots (mountEach E cs s)))"
proof (induction cs arbitrary: s)
  case Nil
  show ?case by simp
next
  case (Cons c cs)
  have "set (map fst (activeRoots s)) \<subseteq> set (map fst (activeRoots (mountWidget E c s)))"
    by (rule keys_mountWidget)
  also have "\<dots> \<subseteq> set (map fst (activeRoots (mountEach E cs (mountWidget E c s))))"
    by (rule Cons.IH)
  finally show ?case by simp
qed

text \<open>After a scan every container of the document is one the guards turn away.\<close>

lemma settled_after_mountEach:
  "c \<in> set cs \<Longrightarrow> settled E (mountEach E cs s) c"
proof (induction cs arbitrary: s)
  case Nil
  then show ?case by simp
next
  case (Cons d cs)
  show ?case
  proof (cases "c = d")
    case True
    have "settled E (mountWidget E d s) d" by (rule settled_after_mount)
    then show ?thesis
      using True keys_mountEach [of "mountWidget E d s" E cs] by (simp add: settled_mono)
  next
    case False
    with Cons.prems have "c \<in> set cs" by simp
    then show ?thesis using Cons.IH by simp
  qed
qed

lemma mountEach_settled:
  "list_all (settled E s) cs \<Longrightarrow>
   mountEach E cs s = s\<lparr>trace := trace s @ map (guardWarning E s) cs\<rparr>"
proof (induction cs arbitrary: s)
  case Nil
  show ?case by simp
next
  case (Cons c cs)
  from Cons.prems have c: "settled E s c" and cs: "list_all (settled E s) cs" by simp_all
  have step: "mountWidget E c s = emit (guardWarning E s c) s"
    using c by (rule mountWidget_settled)
  have "list_all (settled E (emit (guardWarning E s c) s)) cs"
    using cs by simp
  then have "mountEach E cs (emit (guardWarning E s c) s) =
      (emit (guardWarning E s c) s)\<lparr>trace := trace (emit (guardWarning E s c) s) @
         map (guardWarning E (emit (guardWarning E s c) s)) cs\<rparr>"
    by (rule Cons.IH)
  then show ?case by (simp add: step emit_def)
qed

lemma rescan_eq:
  "initializeWidgets E doc (initializeWidgets E doc s) =
     (initializeWidgets E doc s)\<lparr>trace :=
        trace (initializeWidgets E doc s) @
          ConsoleLog Scanning # map (guardWarning E (initializeWidgets E doc s)) doc\<rparr>"
proof -
  let ?s1 = "initializeWidgets E doc s"
  have "list_all (settled E ?s1) doc"
    by (simp add: list_all_iff initializeWidgets_def settled_after_mountEach)
  then have "list_all (settled E (emit (ConsoleLog Scanning) ?s1)) doc" by simp
  then have "mountEach E doc (emit (ConsoleLog Scanning) ?s1) =
      (emit (ConsoleLog Scanning) ?s1)\<lparr>trace := trace (emit (ConsoleLog Scanning) ?s1) @
         map (guardWarning E (emit (ConsoleLog Scanning) ?s1)) doc\<rparr>"
    by (rule mountEach_settled)
  then show ?thesis
    by (simp add: initializeWidgets_def [of E doc ?s1] emit_def)
qed

section \<open>Unmounting every root\<close>

lemma attempted_simps [simp]:
  "attempted throws [] = []"
  "attempted throws (x # xs) = (if throws x then [x] else x # attempted throws xs)"
  by (simp_all add: attempted_def)

lemma notCompleted_simps [simp]:
  "notCompleted throws [] = []"
  "notCompleted throws (x # xs) = (if throws x then x # xs else notCompleted throws xs)"
  by (simp_all add: notCompleted_def)

lemma notCompleted_Nil_iff: "notCompleted throws xs = [] \<longleftrightarrow> list_all (\<lambda>x. \<not> throws x) xs"
  by (induction xs) simp_all

lemma attempted_all: "list_all (\<lambda>x. \<not> throws x) xs \<Longrightarrow> attempted throws xs = xs"
  by (induction xs) simp_all

lemma attempted_map: "attempted throws (map f xs) = map f (attempted (\<lambda>x. throws (f x)) xs)"
  by (induction xs) simp_all

lemma notCompleted_map_Nil_iff:
  "notCompleted throws (map f xs) = [] \<longleftrightarrow> notCompleted (\<lambda>x. throws (f x)) xs = []"
  by (induction xs) simp_all

text \<open>
  \<^verbatim>\<open>cleanupAllWidgets\<close>, whatever throws: the entries are unmounted and deleted in
  order up to the first whose \<^verbatim>\<open>unmount()\<close> throws; that entry and the later ones stay.
\<close>

lemma cleanupEach_general:
  "distinct (map fst m) \<Longrightarrow> activeRoots s = m \<Longrightarrow>
   fst (cleanupEach E (map fst m) s) =
     (if notCompleted (\<lambda>p. unmountThrows E (root (snd p))) m = [] then Normal else Thrown) \<and>
   activeRoots (snd (cleanupEach E (map fst m) s)) =
     notCompleted (\<lambda>p. unmountThrows E (root (snd p))) m \<and>
   unmountCalls (trace (snd (cleanupEach E (map fst m) s))) =
     unmountCalls (trace s) @
       map (\<lambda>p. root (snd p)) (attempted (\<lambda>p. unmountThrows E (root (snd p))) m)"
proof (induction m arbitrary: s)
  case Nil
  then show ?case by simp
next
  case (Cons p m)
  obtain k e where p: "p = (k, e)" by (cases p)
  from Cons.prems p have k: "k \<notin> fst ` set m" and dm: "distinct (map fst m)"
    and s: "activeRoots s = (k, e) # m"
    by simp_all
  have has: "map_has (activeRoots s) k" using s by (simp add: map_has_def)
  show ?case
  proof (cases "unmountThrows E (root e)")
    case True
    have "unmountWidget E k s = (Thrown, s\<lparr>trace := trace s @ [RootUnmount (root e) Thrown]\<rparr>)"
      using True s by (simp add: unmountWidget_def map_get_def emit_def)
    then show ?thesis
      using has True p s by (simp add: unmountCalls_append)
  next
    case False
    let ?s' = "s\<lparr>activeRoots := m,
                  trace := trace s @
                    [RootUnmount (root e) Normal, ConsoleLog (Unmounted (componentName e))]\<rparr>"
    have step: "unmountWidget E k s = (Normal, ?s')"
      using k False s by (simp add: unmountWidget_def map_get_def map_delete_def emit_def Let_def)
    have "activeRoots ?s' = m" by simp
    from Cons.IH [OF dm this] show ?thesis
      using has step False p by (simp add: unmountCalls_append)
  qed
qed

text \<open>
  The \<^verbatim>\<open>forEach\<close> of \<^verbatim>\<open>unmountAllWidgets\<close>, whatever throws: it leaves the table
  alone and calls \<^verbatim>\<open>unmount()\<close> up to the first root that throws.
\<close>

lemma unmountEach_td_general:
  "fst (unmountEach_td E rs s) =
     (if notCompleted (unmountThrows E) rs = [] then Normal else Thrown) \<and>
   activeRoots (snd (unmountEach_td E rs s)) = activeRoots s \<and>
   unmountCalls (trace (snd (unmountEach_td E rs s))) =
     unmountCalls (trace s) @ attempted (unmountThrows E) rs"
proof (induction rs arbitrary: s)
  case Nil
  show ?case by simp
next
  case (Cons r rs)
  show ?case
  proof (cases "unmountThrows E r")
    case True
    then show ?thesis by (simp add: emit_def unmountCalls_append)
  next
    case False
    from Cons.IH [of "emit (RootUnmount r Normal) s"] show ?thesis
      using False by (simp add: emit_def unmountCalls_append)
  qed
qed

section \<open>The tracking invariant\<close>

lemma liveRoots_append: "liveRoots (tr @ es) = foldl liveStep (liveRoots tr) es"
  by (simp add: liveRoots_def)

lemma uncalledRoots_append: "uncalledRoots (tr @ es) = foldl uncalledStep (uncalledRoots tr) es"
  by (simp add: uncalledRoots_def)

lemma foldl_liveStep_parseEffects [simp]: "foldl liveStep live (parseEffects E pj) = live"
  by (simp add: parseEffects_def liveStep_def split: option.splits)

lemma foldl_uncalledStep_parseEffects [simp]: "foldl uncalledStep live (parseEffects E pj) = live"
  by (simp add: parseEffects_def uncalledStep_def split: option.splits)

lemmas live_defs = liveRoots_append uncalledRoots_append liveStep_def uncalledStep_def

lemma tracked_live_initialState: "tracked_live initialState"
  by (simp add: tracked_live_def trackedRoots_def initialState_def liveRoots_def
      uncalledRoots_def)

lemma tracked_live_emit_console:
  "tracked_live s \<Longrightarrow> tracked_live (emit (ConsoleWarn m) s)"
  "tracked_live s \<Longrightarrow> tracked_live (emit (ConsoleLog m) s)"
  by (simp_all add: tracked_live_def emit_def trackedRoots_def live_defs)

lemma mountWidget_tracked_live:
  assumes "tracked_live s"
  shows "tracked_live (mountWidget E c s)"
proof (cases "map_has (activeRoots s) (nodeId c)")
  case True
  then show ?thesis using assms by (simp add: mountWidget_tracked tracked_live_emit_console)
next
  case False
  show ?thesis
  proof (cases "truthy (widgetComponent c)")
    case None
    then show ?thesis using False assms by (simp add: mountWidget_noName tracked_live_emit_console)
  next
    case (Some name)
    show ?thesis
    proof (cases "registry_get (registry E) name")
      case None
      then show ?thesis
        using False Some assms by (simp add: mountWidget_notFound tracked_live_emit_console)
    next
      case (Some C)
      let ?T = "map (\<lambda>p. (fst p, root (snd p))) (activeRoots s)"
      from assms have inv: "distinct (map fst (activeRoots s))"
        "distinct (map (\<lambda>p. root (snd p)) (activeRoots s))"
        "\<forall>p\<in>set (activeRoots s). root (snd p) < nextRoot s"
        "liveRoots (trace s) = ?T"
        "distinct (uncalledRoots (trace s))"
        "\<forall>p\<in>set (uncalledRoots (trace s)). p \<in> set ?T"
        by (simp_all add: tracked_live_def trackedRoots_def list_all_iff comp_def)
      from inv(3) have fresh: "nextRoot s \<notin> (\<lambda>p. root (snd p)) ` set (activeRoots s)"
        by auto
      from inv(3) have mono: "\<forall>p\<in>set (activeRoots s). root (snd p) < Suc (nextRoot s)"
        by (auto intro: less_SucI)
      have "(nodeId c, nextRoot s) \<notin> set ?T"
        using fresh by auto
      with inv(6) have new: "(nodeId c, nextRoot s) \<notin> set (uncalledRoots (trace s))"
        by blast
      have sub: "\<forall>p\<in>set (uncalledRoots (trace s)).
          p = (nodeId c, nextRoot s) \<or> p \<in> set ?T"
        using inv(6) by blast
      show ?thesis
        using False \<open>truthy (widgetComponent c) = Some name\<close> Some inv(1,2,4,5) fresh mono new sub
        by (simp add: mountWidget_mounts tracked_live_def trackedRoots_def live_defs
            map_has_def list_all_iff comp_def)
    qed
  qed
qed

lemma filter_tracked_delete:
  "distinct (map fst m) \<Longrightarrow> distinct (map (\<lambda>p. root (snd p)) m) \<Longrightarrow> map_of m cid = Some e \<Longrightarrow>
   filter (\<lambda>p. snd p \<noteq> root e) (map (\<lambda>p. (fst p, root (snd p))) m) =
     map (\<lambda>p. (fst p, root (snd p))) (AList.delete cid m)"
proof (induction m)
  case Nil
  then show ?case by simp
next
  case (Cons p m)
  obtain k v where p: "p = (k, v)" by (cases p)
  show ?case
  proof (cases "k = cid")
    case True
    with Cons.prems p have v: "v = e" and nk: "cid \<notin> fst ` set m"
      and nr: "root e \<notin> (\<lambda>p. root (snd p)) ` set m" by auto
    from nr have "\<forall>p\<in>set m. root (snd p) \<noteq> root e" by force
    then have "filter (\<lambda>p. snd p \<noteq> root e) (map (\<lambda>p. (fst p, root (snd p))) m) =
        map (\<lambda>p. (fst p, root (snd p))) m"
      by (simp add: filter_id_conv)
    then show ?thesis using True p v nk by simp
  next
    case False
    with Cons.prems p have me: "map_of m cid = Some e" and dm: "distinct (map fst m)"
      and dr: "distinct (map (\<lambda>p. root (snd p)) m)"
      and nv: "root v \<notin> (\<lambda>p. root (snd p)) ` set m" by auto
    from me have "(cid, e) \<in> set m" by (rule map_of_SomeD)
    then have "root e \<in> (\<lambda>p. root (snd p)) ` set m" by force
    with nv have "root v \<noteq> root e" by metis
    then show ?thesis using False p Cons.IH [OF dm dr me] by simp
  qed
qed

text \<open>\<^verbatim>\<open>unmountWidget\<close> keeps the invariant whether \<^verbatim>\<open>unmount()\<close> returns or throws.\<close>

lemma unmountWidget_tracked_live:
  assumes "tracked_live s"
  shows "tracked_live (snd (unmountWidget E cid s))"
proof (cases "map_get (activeRoots s) cid")
  case None
  then show ?thesis using assms by (simp add: unmountWidget_def)
next
  case (Some e)
  let ?T = "map (\<lambda>p. (fst p, root (snd p))) (activeRoots s)"
  let ?D = "map (\<lambda>p. (fst p, root (snd p))) (AList.delete cid (activeRoots s))"
  from assms have d1: "distinct (map fst (activeRoots s))"
    and d2: "distinct (map (\<lambda>p. root (snd p)) (activeRoots s))"
    and lt: "\<forall>p\<in>set (activeRoots s). root (snd p) < nextRoot s"
    and lv: "liveRoots (trace s) = ?T"
    and du: "distinct (uncalledRoots (trace s))"
    and su: "\<forall>p\<in>set (uncalledRoots (trace s)). p \<in> set ?T"
    by (simp_all add: tracked_live_def trackedRoots_def comp_def list_all_iff)
  show ?thesis
  proof (cases "unmountThrows E (root e)")
    case True
    have eq: "snd (unmountWidget E cid s) =
        s\<lparr>trace := trace s @ [RootUnmount (root e) Thrown]\<rparr>"
      using Some True by (simp add: unmountWidget_def emit_def)
    show ?thesis
      unfolding eq using d1 d2 lt lv du su
      by (simp add: tracked_live_def trackedRoots_def live_defs comp_def list_all_iff)
  next
    case False
    have eq: "snd (unmountWidget E cid s) =
        s\<lparr>activeRoots := AList.delete cid (activeRoots s),
          trace := trace s @
            [RootUnmount (root e) Normal, ConsoleLog (Unmounted (componentName e))]\<rparr>"
      using Some False by (simp add: unmountWidget_def Let_def emit_def map_delete_def)
    have f: "filter (\<lambda>p. snd p \<noteq> root e) ?T = ?D"
      using d1 d2 Some [unfolded map_get_def] by (rule filter_tracked_delete)
    have sub: "set (AList.delete cid (activeRoots s)) \<subseteq> set (activeRoots s)"
      by (auto simp: AList.delete_eq)
    have "distinct (map snd (filter (\<lambda>p. snd p \<noteq> root e) ?T))"
      using d2 by (simp add: distinct_map_filter comp_def)
    then have d2': "distinct (map (\<lambda>p. root (snd p)) (AList.delete cid (activeRoots s)))"
      by (simp add: f comp_def)
    have lt': "\<forall>p\<in>set (AList.delete cid (activeRoots s)). root (snd p) < nextRoot s"
      using lt sub by blast
    have su': "\<forall>p\<in>set (filter (\<lambda>p. snd p \<noteq> root e) (uncalledRoots (trace s))). p \<in> set ?D"
    proof
      fix p assume "p \<in> set (filter (\<lambda>p. snd p \<noteq> root e) (uncalledRoots (trace s)))"
      then have "p \<in> set ?T" and "snd p \<noteq> root e" using su by auto
      then have "p \<in> set (filter (\<lambda>p. snd p \<noteq> root e) ?T)" by simp
      then show "p \<in> set ?D" by (simp only: f)
    qed
    have su'': "list_all (\<lambda>p. p \<in> set ?D)
        (filter (\<lambda>p. snd p \<noteq> root e) (uncalledRoots (trace s)))"
      using su' by (simp only: list_all_iff)
    show ?thesis
      unfolding eq using d1 d2' lt' lv f du su''
      by (simp add: tracked_live_def trackedRoots_def distinct_delete live_defs comp_def
          list_all_iff)
  qed
qed

lemma mountEach_tracked_live:
  "tracked_live s \<Longrightarrow> tracked_live (mountEach E cs s)"
  by (induction cs arbitrary: s) (simp_all add: mountWidget_tracked_live)

lemma initializeWidgets_tracked_live:
  "tracked_live s \<Longrightarrow> tracked_live (initializeWidgets E doc s)"
  by (simp add: initializeWidgets_def mountEach_tracked_live tracked_live_emit_console)

lemma cleanupEach_tracked_live:
  "tracked_live s \<Longrightarrow> tracked_live (snd (cleanupEach E ks s))"
proof (induction ks arbitrary: s)
  case Nil
  then show ?case by simp
next
  case (Cons k ks)
  have step: "tracked_live (snd (unmountWidget E k s))"
    using Cons.prems by (rule unmountWidget_tracked_live)
  obtain out s' where u: "unmountWidget E k s = (out, s')" by (cases "unmountWidget E k s")
  with step have s': "tracked_live s'" by simp
  show ?case
    using Cons.prems Cons.IH [OF s'] Cons.IH [OF Cons.prems] s' u
    by (cases out) simp_all
qed

lemma cleanupAllWidgets_tracked_live:
  "tracked_live s \<Longrightarrow> tracked_live (snd (cleanupAllWidgets E s))"
  by (simp add: cleanupAllWidgets_def cleanupEach_tracked_live)

text \<open>Under the invariant a container has at most one live root, on either reading.\<close>

lemma tracked_live_one_root:
  assumes "tracked_live s"
  shows "distinct (map fst (liveRoots (trace s)))"
    and "distinct (map fst (uncalledRoots (trace s)))"
proof -
  from assms have keys: "distinct (map fst (trackedRoots s))"
    and lv: "liveRoots (trace s) = trackedRoots s"
    and du: "distinct (uncalledRoots (trace s))"
    and su: "set (uncalledRoots (trace s)) \<subseteq> set (trackedRoots s)"
    by (auto simp: tracked_live_def trackedRoots_def list_all_iff comp_def)
  show "distinct (map fst (liveRoots (trace s)))"
    using keys by (simp add: lv)
  from keys have "inj_on fst (set (trackedRoots s))"
    by (simp add: distinct_map)
  then have "inj_on fst (set (uncalledRoots (trace s)))"
    using su by (rule inj_on_subset)
  then show "distinct (map fst (uncalledRoots (trace s)))"
    using du by (simp add: distinct_map)
qed

text \<open>Whatever \<^verbatim>\<open>unmount()\<close> does, \<^verbatim>\<open>unmountWidget\<close> keeps the keys distinct.\<close>

lemma unmountWidget_distinct:
  "distinct (map fst (activeRoots s)) \<Longrightarrow>
   distinct (map fst (activeRoots (snd (unmountWidget E cid s))))"
  by (simp add: unmountWidget_def Let_def emit_def map_delete_def distinct_delete
      split: option.splits)

text \<open>An entry of the table survives every later \<^verbatim>\<open>mountWidget\<close>.\<close>

lemma mountWidget_keeps_entry:
  "map_get (activeRoots s) k = Some e \<Longrightarrow> map_get (activeRoots (mountWidget E c s)) k = Some e"
  by (auto simp: mountWidget_def parseProps_eq createRoot_def emit_def map_set_def map_get_def
      map_has_def Let_def update_conv' weak_map_of_SomeI image_iff
      split: option.splits dest!: map_of_SomeD)

lemma mountWidget_td_distinct:
  "distinct (map fst (activeRoots t)) \<Longrightarrow> distinct (map fst (activeRoots (mountWidget_td E c t)))"
  by (simp add: mountWidget_td_def createRoot_def emit_def map_set_def Let_def distinct_update
      split: option.splits)

section \<open>The claims\<close>

subsection \<open>C1: a \<^verbatim>\<open>data-props\<close> text that is not valid JSON\<close>

text \<open>
  C1 says that a container whose \<^verbatim>\<open>data-props\<close> is not valid JSON gets a diagnostic and
  is skipped: no root, no entry in the tracking table. The \<^verbatim>\<open>mountWidget\<close> of the demo's
  \<^verbatim>\<open>main.jsx\<close> does so. The \<^verbatim>\<open>mountWidget\<close> of \<^verbatim>\<open>main.tsx\<close> does not: on the
  container with \<^verbatim>\<open>data-widget-component="ProductCard"\<close> and
  \<^verbatim>\<open>data-props="{not valid json"\<close>, \<^verbatim>\<open>parseProps\<close> logs the error and returns
  \<^verbatim>\<open>{}\<close>, and the widget is mounted with empty props, tracked and logged as mounted.
\<close>

theorem C1_malformed_props_mounted_by_main_tsx:
  "mountWidget demoEnv malformedContainer initialState =
     \<lparr>activeRoots = [(1, \<lparr>root = 0, componentName = ''ProductCard''\<rparr>)], nextRoot = 1,
      trace = [ConsoleError InvalidPropsJSON, CreateRoot 0 1,
               RootRender 0
                 (StrictMode (Suspense (Div ''skeleton-loader'' [])
                  (ComponentEl (Lazy ''./components/ProductCard'') []))),
               ConsoleLog (Mounted ''ProductCard'')]\<rparr> \<and>
   mountWidget_jsx demoEnv malformedContainer initialState =
     \<lparr>activeRoots = [], nextRoot = 0,
      trace = [ConsoleError (InvalidPropsJSONFor ''ProductCard'')]\<rparr>"
  by (simp add: mountWidget_def mountWidget_jsx_def parseProps_def js_defs sample_defs)

subsection \<open>C2: unmounting all roots when one \<^verbatim>\<open>unmount()\<close> throws\<close>

text \<open>
  C2, as amended: for every tracking table with K entries, the unmount-all operation
  (\<^verbatim>\<open>cleanupAllWidgets\<close> of \<^verbatim>\<open>main.tsx\<close>, \<^verbatim>\<open>unmountAllWidgets\<close> of the technical
  design) calls \<^verbatim>\<open>unmount()\<close> on the roots in insertion order, up to and including the
  first whose \<^verbatim>\<open>unmount()\<close> throws. When none throws, it returns, has called
  \<^verbatim>\<open>unmount()\<close> on every one of the K roots and leaves the table empty. When one
  throws, nothing catches the exception: it ends the iteration and reaches the caller, no
  later root is attempted, and the table is not emptied; \<^verbatim>\<open>cleanupAllWidgets\<close> is left
  with the entry that threw and all later ones, \<^verbatim>\<open>unmountAllWidgets\<close> with all K.
\<close>

theorem C2_unmount_all_stops_at_first_throw:
  assumes "distinct (map fst (activeRoots s))"
  shows "fst (cleanupAllWidgets E s) =
       (if notCompleted (\<lambda>p. unmountThrows E (root (snd p))) (activeRoots s) = []
        then Normal else Thrown) \<and>
     activeRoots (snd (cleanupAllWidgets E s)) =
       notCompleted (\<lambda>p. unmountThrows E (root (snd p))) (activeRoots s) \<and>
     unmountCalls (trace (snd (cleanupAllWidgets E s))) =
       unmountCalls (trace s) @
         map (\<lambda>p. root (snd p))
           (attempted (\<lambda>p. unmountThrows E (root (snd p))) (activeRoots s)) \<and>
     fst (unmountAllWidgets_td E t) =
       (if notCompleted (\<lambda>p. unmountThrows E (snd p)) (activeRoots t) = []
        then Normal else Thrown) \<and>
     activeRoots (snd (unmountAllWidgets_td E t)) =
       (if notCompleted (\<lambda>p. unmountThrows E (snd p)) (activeRoots t) = []
        then [] else activeRoots t) \<and>
     unmountCalls (trace (snd (unmountAllWidgets_td E t))) =
       unmountCalls (trace t) @
         map snd (attempted (\<lambda>p. unmountThrows E (snd p)) (activeRoots t)) \<and>
     (list_all (\<lambda>p. \<not> unmountThrows E (root (snd p))) (activeRoots s) \<longrightarrow>
        fst (cleanupAllWidgets E s) = Normal \<and>
        activeRoots (snd (cleanupAllWidgets E s)) = [] \<and>
        unmountCalls (trace (snd (cleanupAllWidgets E s))) =
          unmountCalls (trace s) @ map (\<lambda>p. root (snd p)) (activeRoots s)) \<and>
     (list_all (\<lambda>p. \<not> unmountThrows E (snd p)) (activeRoots t) \<longrightarrow>
        fst (unmountAllWidgets_td E t) = Normal \<and>
        activeRoots (snd (unmountAllWidgets_td E t)) = [] \<and>
        unmountCalls (trace (snd (unmountAllWidgets_td E t))) =
          unmountCalls (trace t) @ map snd (activeRoots t)) \<and>
     (list_ex (\<lambda>p. unmountThrows E (root (snd p))) (activeRoots s) \<longrightarrow>
        fst (cleanupAllWidgets E s) = Thrown \<and>
        activeRoots (snd (cleanupAllWidgets E s)) \<noteq> []) \<and>
     (list_ex (\<lambda>p. unmountThrows E (snd p)) (activeRoots t) \<longrightarrow>
        fst (unmountAllWidgets_td E t) = Thrown \<and>
        activeRoots (snd (unmountAllWidgets_td E t)) = activeRoots t \<and>
        activeRoots t \<noteq> [])"
proof -
  let ?thr = "\<lambda>p. unmountThrows E (root (snd p))"
  let ?thr_td = "\<lambda>p. unmountThrows E (snd p)"
  have tsx: "fst (cleanupAllWidgets E s) =
       (if notCompleted ?thr (activeRoots s) = [] then Normal else Thrown) \<and>
     activeRoots (snd (cleanupAllWidgets E s)) = notCompleted ?thr (activeRoots s) \<and>
     unmountCalls (trace (snd (cleanupAllWidgets E s))) =
       unmountCalls (trace s) @ map (\<lambda>p. root (snd p)) (attempted ?thr (activeRoots s))"
    unfolding cleanupAllWidgets_def
    using assms by (intro cleanupEach_general) simp_all
  have each: "fst (unmountEach_td E (map snd (activeRoots t)) t) =
       (if notCompleted ?thr_td (activeRoots t) = [] then Normal else Thrown) \<and>
     activeRoots (snd (unmountEach_td E (map snd (activeRoots t)) t)) = activeRoots t \<and>
     unmountCalls (trace (snd (unmountEach_td E (map snd (activeRoots t)) t))) =
       unmountCalls (trace t) @ map snd (attempted ?thr_td (activeRoots t))"
    using unmountEach_td_general [of E "map snd (activeRoots t)" t]
    by (simp add: attempted_map notCompleted_map_Nil_iff)
  have td: "fst (unmountAllWidgets_td E t) =
       (if notCompleted ?thr_td (activeRoots t) = [] then Normal else Thrown) \<and>
     activeRoots (snd (unmountAllWidgets_td E t)) =
       (if notCompleted ?thr_td (activeRoots t) = [] then [] else activeRoots t) \<and>
     unmountCalls (trace (snd (unmountAllWidgets_td E t))) =
       unmountCalls (trace t) @ map snd (attempted ?thr_td (activeRoots t))"
  proof (cases "unmountEach_td E (map snd (activeRoots t)) t")
    case (Pair out t')
    with each show ?thesis
      by (cases out) (auto simp: unmountAllWidgets_td_def split: if_splits)
  qed
  have none: "notCompleted ?thr (activeRoots s) = [] \<and> attempted ?thr (activeRoots s) = activeRoots s"
    if "list_all (\<lambda>p. \<not> unmountThrows E (root (snd p))) (activeRoots s)"
    using that by (simp add: notCompleted_Nil_iff attempted_all)
  have none_td: "notCompleted ?thr_td (activeRoots t) = [] \<and>
      attempted ?thr_td (activeRoots t) = activeRoots t"
    if "list_all (\<lambda>p. \<not> unmountThrows E (snd p)) (activeRoots t)"
    using that by (simp add: notCompleted_Nil_iff attempted_all)
  have some: "notCompleted ?thr (activeRoots s) \<noteq> []"
    if "list_ex (\<lambda>p. unmountThrows E (root (snd p))) (activeRoots s)"
    using that by (auto simp: notCompleted_Nil_iff list_ex_iff list_all_iff)
  have some_td: "notCompleted ?thr_td (activeRoots t) \<noteq> [] \<and> activeRoots t \<noteq> []"
    if "list_ex (\<lambda>p. unmountThrows E (snd p)) (activeRoots t)"
    using that by (auto simp: notCompleted_Nil_iff list_ex_iff list_all_iff)
  show ?thesis
    using tsx td none none_td some some_td by (intro conjI impI) simp_all
qed

text \<open>
  The two demo widgets. When no root throws, both operations unmount root 0, then root 1,
  and empty their table. When \<^verbatim>\<open>unmount()\<close> of root 0 throws, both end with the
  exception after that one call, with both entries still in the table.
\<close>

theorem C2_unmount_all_witness:
  "distinct (map fst (activeRoots twoWidgets)) \<and>
   list_all (\<lambda>p. \<not> unmountThrows demoEnv (root (snd p))) (activeRoots twoWidgets) \<and>
   list_all (\<lambda>p. \<not> unmountThrows demoEnv (snd p)) (activeRoots twoWidgets_td) \<and>
   length (activeRoots twoWidgets) = 2 \<and>
   fst (cleanupAllWidgets demoEnv twoWidgets) = Normal \<and>
   activeRoots (snd (cleanupAllWidgets demoEnv twoWidgets)) = [] \<and>
   unmountCalls (trace (snd (cleanupAllWidgets demoEnv twoWidgets))) = [0, 1] \<and>
   fst (unmountAllWidgets_td demoEnv twoWidgets_td) = Normal \<and>
   activeRoots (snd (unmountAllWidgets_td demoEnv twoWidgets_td)) = [] \<and>
   unmountCalls (trace (snd (unmountAllWidgets_td demoEnv twoWidgets_td))) = [0, 1] \<and>
   list_ex (\<lambda>p. unmountThrows throwingEnv (root (snd p))) (activeRoots twoWidgets) \<and>
   list_ex (\<lambda>p. unmountThrows throwingEnv (snd p)) (activeRoots twoWidgets_td) \<and>
   attempted (\<lambda>p. unmountThrows throwingEnv (root (snd p))) (activeRoots twoWidgets) =
     [(1, \<lparr>root = 0, componentName = ''ProductCard''\<rparr>)] \<and>
   fst (cleanupAllWidgets throwingEnv twoWidgets) = Thrown \<and>
   activeRoots (snd (cleanupAllWidgets throwingEnv twoWidgets)) =
     [(1, \<lparr>root = 0, componentName = ''ProductCard''\<rparr>),
      (2, \<lparr>root = 1, componentName = ''Calculator''\<rparr>)] \<and>
   unmountCalls (trace (snd (cleanupAllWidgets throwingEnv twoWidgets))) = [0] \<and>
   fst (unmountAllWidgets_td throwingEnv twoWidgets_td) = Thrown \<and>
   activeRoots (snd (unmountAllWidgets_td throwingEnv twoWidgets_td)) = [(1, 0), (2, 1)] \<and>
   unmountCalls (trace (snd (unmountAllWidgets_td throwingEnv twoWidgets_td))) = [0]"
proof -
  have h1: "distinct (map fst (activeRoots twoWidgets))"
    by (simp add: twoWidgets_eq)
  have h2: "list_all (\<lambda>p. \<not> unmountThrows demoEnv (root (snd p))) (activeRoots twoWidgets)"
    by (simp add: twoWidgets_eq demoEnv_def)
  have h3: "list_all (\<lambda>p. \<not> unmountThrows demoEnv (snd p)) (activeRoots twoWidgets_td)"
    by (simp add: twoWidgets_td_eq demoEnv_def)
  have h4: "list_ex (\<lambda>p. unmountThrows throwingEnv (root (snd p))) (activeRoots twoWidgets)"
    by (simp add: twoWidgets_eq throwingEnv_def demoEnv_def)
  have h5: "list_ex (\<lambda>p. unmountThrows throwingEnv (snd p)) (activeRoots twoWidgets_td)"
    by (simp add: twoWidgets_td_eq throwingEnv_def demoEnv_def)
  have tbl: "activeRoots twoWidgets =
       [(1, \<lparr>root = 0, componentName = ''ProductCard''\<rparr>),
        (2, \<lparr>root = 1, componentName = ''Calculator''\<rparr>)]"
    and tbl_td: "activeRoots twoWidgets_td = [(1, 0), (2, 1)]"
    and calls: "unmountCalls (trace twoWidgets) = []"
    and calls_td: "unmountCalls (trace twoWidgets_td) = []"
    by (simp_all add: twoWidgets_eq twoWidgets_td_eq)
  have thr: "unmountThrows throwingEnv 0" "\<not> unmountThrows throwingEnv 1"
    by (simp_all add: throwingEnv_def demoEnv_def)
  from C2_unmount_all_stops_at_first_throw [OF h1, where E = demoEnv and t = twoWidgets_td]
    h2 h3
  have quiet: "fst (cleanupAllWidgets demoEnv twoWidgets) = Normal"
    "activeRoots (snd (cleanupAllWidgets demoEnv twoWidgets)) = []"
    "unmountCalls (trace (snd (cleanupAllWidgets demoEnv twoWidgets))) =
       unmountCalls (trace twoWidgets) @ map (\<lambda>p. root (snd p)) (activeRoots twoWidgets)"
    "fst (unmountAllWidgets_td demoEnv twoWidgets_td) = Normal"
    "activeRoots (snd (unmountAllWidgets_td demoEnv twoWidgets_td)) = []"
    "unmountCalls (trace (snd (unmountAllWidgets_td demoEnv twoWidgets_td))) =
       unmountCalls (trace twoWidgets_td) @ map snd (activeRoots twoWidgets_td)"
    by blast+
  from C2_unmount_all_stops_at_first_throw [OF h1, where E = throwingEnv and t = twoWidgets_td]
  have loud: "fst (cleanupAllWidgets throwingEnv twoWidgets) =
       (if notCompleted (\<lambda>p. unmountThrows throwingEnv (root (snd p))) (activeRoots twoWidgets) = []
        then Normal else Thrown)"
    "activeRoots (snd (cleanupAllWidgets throwingEnv twoWidgets)) =
       notCompleted (\<lambda>p. unmountThrows throwingEnv (root (snd p))) (activeRoots twoWidgets)"
    "unmountCalls (trace (snd (cleanupAllWidgets throwingEnv twoWidgets))) =
       unmountCalls (trace twoWidgets) @
         map (\<lambda>p. root (snd p))
           (attempted (\<lambda>p. unmountThrows throwingEnv (root (snd p))) (activeRoots twoWidgets))"
    "fst (unmountAllWidgets_td throwingEnv twoWidgets_td) =
       (if notCompleted (\<lambda>p. unmountThrows throwingEnv (snd p)) (activeRoots twoWidgets_td) = []
        then Normal else Thrown)"
    "activeRoots (snd (unmountAllWidgets_td throwingEnv twoWidgets_td)) =
       (if notCompleted (\<lambda>p. unmountThrows throwingEnv (snd p)) (activeRoots twoWidgets_td) = []
        then [] else activeRoots twoWidgets_td)"
    "unmountCalls (trace (snd (unmountAllWidgets_td throwingEnv twoWidgets_td))) =
       unmountCalls (trace twoWidgets_td) @
         map snd (attempted (\<lambda>p. unmountThrows throwingEnv (snd p)) (activeRoots twoWidgets_td))"
    by blast+
  have att: "attempted (\<lambda>p. unmountThrows throwingEnv (root (snd p))) (activeRoots twoWidgets) =
     [(1, \<lparr>root = 0, componentName = ''ProductCard''\<rparr>)]"
    by (simp add: tbl thr)
  show ?thesis
    using h1 h2 h3 h4 h5 quiet loud att
    by (simp add: tbl tbl_td calls calls_td thr)
qed

text \<open>
  C2 as stated fails: with the two demo widgets tracked and \<^verbatim>\<open>unmount()\<close> of the first
  root throwing, the exception leaves both operations, \<^verbatim>\<open>unmount()\<close> has been called on
  root 0 only, and both entries are still in the table.
\<close>

theorem C2_counterexample:
  "length (activeRoots twoWidgets) = 2 \<and>
   fst (cleanupAllWidgets throwingEnv twoWidgets) = Thrown \<and>
   activeRoots (snd (cleanupAllWidgets throwingEnv twoWidgets)) = activeRoots twoWidgets \<and>
   unmountCalls (trace (snd (cleanupAllWidgets throwingEnv twoWidgets))) = [0] \<and>
   length (activeRoots twoWidgets_td) = 2 \<and>
   fst (unmountAllWidgets_td throwingEnv twoWidgets_td) = Thrown \<and>
   activeRoots (snd (unmountAllWidgets_td throwingEnv twoWidgets_td)) = activeRoots twoWidgets_td \<and>
   unmountCalls (trace (snd (unmountAllWidgets_td throwingEnv twoWidgets_td))) = [0]"
  by (simp add: twoWidgets_eq twoWidgets_td_eq cleanupAllWidgets_def unmountWidget_def
      unmountAllWidgets_td_def Let_def js_defs sample_defs)

subsection \<open>C3: the fault isolation wrapper\<close>

text \<open>
  C3 says that every mounted instance is rendered inside the fault isolation wrapper, so
  that an instance whose component fails while rendering shows a fallback. The checklist's
  \<^verbatim>\<open>mountWidget\<close> renders the component inside the \<^verbatim>\<open>ErrorBoundary\<close>, which then shows
  its error box. \<^verbatim>\<open>main.tsx\<close> renders StrictMode, Suspense and the component, with no
  \<^verbatim>\<open>ErrorBoundary\<close>: when the component of the demo's ProductCard container throws, the
  error leaves the tree and no fallback is shown.
\<close>

theorem C3_main_tsx_renders_without_error_boundary:
  "trace (mountWidget demoEnv productCardContainer initialState) =
     [CreateRoot 0 1,
      RootRender 0
        (StrictMode (Suspense (Div ''skeleton-loader'' [])
                  (ComponentEl (Lazy ''./components/ProductCard'') []))),
      ConsoleLog (Mounted ''ProductCard'')] \<and>
   wrapsInErrorBoundary
       (StrictMode (Suspense (Div ''skeleton-loader'' [])
                  (ComponentEl (Lazy ''./components/ProductCard'') []))) = False \<and>
   renderElement (\<lambda>C. True)
       (StrictMode (Suspense (Div ''skeleton-loader'' [])
                  (ComponentEl (Lazy ''./components/ProductCard'') []))) = None \<and>
   trace (mountWidget_checklist demoEnv False productCardContainer initialState) =
     [CreateRoot 0 1,
      RootRender 0
        (StrictMode (ErrorBoundary ''ProductCard''
                  (Suspense (Div [] ''Loading...'')
                     (ComponentEl (Lazy ''./components/ProductCard'') []))))] \<and>
   renderElement (\<lambda>C. True)
       (StrictMode (ErrorBoundary ''ProductCard''
                  (Suspense (Div [] ''Loading...'')
                     (ComponentEl (Lazy ''./components/ProductCard'') [])))) =
     Some (ShownWidgetError ''ProductCard'')"
  by (simp add: mountWidget_def mountWidget_checklist_def parseProps_def
      getDerivedStateFromError_def initialBoundary_def js_defs sample_defs)

subsection \<open>C4: scanning twice\<close>

text \<open>
  C4, as amended: for every document and every state, a second scan
  (\<^verbatim>\<open>initializeWidgets\<close> of \<^verbatim>\<open>main.tsx\<close>) of the unchanged document adds no entry to
  the tracking table and creates and renders no root; what it adds to the console is the
  scan line and, for each container of the document, the warning of the guard that turns
  it away, which for an already-tracked container is the "already mounted" warning.
\<close>

theorem C4_second_scan_adds_nothing_and_warns:
  "activeRoots (initializeWidgets E doc (initializeWidgets E doc s)) =
     activeRoots (initializeWidgets E doc s) \<and>
   nextRoot (initializeWidgets E doc (initializeWidgets E doc s)) =
     nextRoot (initializeWidgets E doc s) \<and>
   trace (initializeWidgets E doc (initializeWidgets E doc s)) =
     trace (initializeWidgets E doc s) @
       ConsoleLog Scanning # map (guardWarning E (initializeWidgets E doc s)) doc"
proof -
  have "initializeWidgets E doc (initializeWidgets E doc s) =
     (initializeWidgets E doc s)\<lparr>trace :=
        trace (initializeWidgets E doc s) @
          ConsoleLog Scanning # map (guardWarning E (initializeWidgets E doc s)) doc\<rparr>"
    by (rule rescan_eq)
  then show ?thesis by simp
qed

text \<open>
  C4 as stated fails: the second scan of the demo page with its one ProductCard container
  emits a duplicate-mount diagnostic, the warning that container 1 is already mounted.
\<close>

theorem C4_counterexample:
  "diagnostics (trace productCardMounted) = [] \<and>
   diagnostics (trace (initializeWidgets demoEnv [productCardContainer] productCardMounted)) =
     [ConsoleWarn (AlreadyMounted 1)]"
  by (simp add: productCardMounted_eq initializeWidgets_def mountWidget_def diagnostics_def
      js_defs sample_defs)

subsection \<open>C5: removal of a subtree that contains a mounted container\<close>

text \<open>
  C5 says that the observer unmounts every tracked container that is a removed node or
  lies inside a removed subtree. The observer of the checklist tests the removed nodes
  themselves only. When the host removes the wrapper (node 1) around the mounted widget
  container (node 2), the record lists the wrapper; the observer returns with the state
  unchanged: container 2 is still tracked and \<^verbatim>\<open>unmount()\<close> was called on no root.
\<close>

theorem C5_observer_misses_container_inside_removed_subtree:
  "activeRoots nestedMounted = [(2, 0)] \<and>
   subtreeIds wrapperNode = [1, 2] \<and>
   observer demoEnv [\<lparr>removedNodes = [wrapperNode]\<rparr>] nestedMounted = (Normal, nestedMounted) \<and>
   unmountCalls (trace nestedMounted) = []"
  by (simp add: nestedMounted_eq observeRemoved_def js_defs sample_defs)

subsection \<open>C6: a component name that is not a key of the registry\<close>

text \<open>
  C6 says that a container naming a component that is not a key of the registry gets a
  warning and is skipped. \<^verbatim>\<open>constructor\<close> is not a key of the demo's registry, but
  \<^verbatim>\<open>registry['constructor']\<close> finds the member inherited from \<^verbatim>\<open>Object.prototype\<close>,
  which is truthy: \<^verbatim>\<open>mountWidget\<close> gives no warning, creates a root, tracks the
  container and logs it as mounted.
\<close>

theorem C6_inherited_name_is_mounted:
  "demoRegistry ''constructor'' = None \<and>
   mountWidget demoEnv inheritedNameContainer initialState =
     \<lparr>activeRoots = [(1, \<lparr>root = 0, componentName = ''constructor''\<rparr>)], nextRoot = 1,
      trace = [CreateRoot 0 1,
               RootRender 0
                 (StrictMode (Suspense (Div ''skeleton-loader'' [])
                    (ComponentEl (ObjectPrototypeMember ''constructor'') []))),
               ConsoleLog (Mounted ''constructor'')]\<rparr>"
  by (simp add: mountWidget_def parseProps_def js_defs sample_defs)

subsection \<open>C7: \<^verbatim>\<open>unmountWidget\<close>\<close>

text \<open>
  C7, as amended: for every container with no entry in the tracking table,
  \<^verbatim>\<open>unmountWidget\<close> is a no-op: it returns without an error and leaves the state as it
  was, so a second unmount of the same container is harmless. For every tracked container
  it calls \<^verbatim>\<open>unmount()\<close> on the entry's root. When that call returns, the entry is
  removed from the table, the unmount is logged, and no other entry is touched. When that
  call throws, the exception reaches the caller and the entry stays in the table.
\<close>

theorem C7_unmountWidget_noop_destroys_or_throws:
  "(map_get (activeRoots s) cid = None \<longrightarrow> unmountWidget E cid s = (Normal, s)) \<and>
   (map_get (activeRoots s) cid = Some entry \<longrightarrow>
      unmountCalls (trace (snd (unmountWidget E cid s))) =
        unmountCalls (trace s) @ [root entry]) \<and>
   (map_get (activeRoots s) cid = Some entry \<and> \<not> unmountThrows E (root entry) \<longrightarrow>
      unmountWidget E cid s =
        (Normal,
         s\<lparr>activeRoots := map_delete cid (activeRoots s),
           trace := trace s @
             [RootUnmount (root entry) Normal, ConsoleLog (Unmounted (componentName entry))]\<rparr>) \<and>
      \<not> map_has (map_delete cid (activeRoots s)) cid \<and>
      unmountWidget E cid (snd (unmountWidget E cid s)) = (Normal, snd (unmountWidget E cid s))) \<and>
   (map_get (activeRoots s) cid = Some entry \<and> unmountThrows E (root entry) \<longrightarrow>
      unmountWidget E cid s =
        (Thrown, s\<lparr>trace := trace s @ [RootUnmount (root entry) Thrown]\<rparr>) \<and>
      map_get (activeRoots (snd (unmountWidget E cid s))) cid = Some entry)"
proof -
  have absent: "map_get (map_delete cid m) cid = None" for m :: "(nat \<times> RootEntry) list"
    by (simp add: map_get_def map_delete_def delete_conv')
  show ?thesis
    by (simp add: unmountWidget_def Let_def emit_def unmountCalls_append absent)
      (simp add: map_has_def map_delete_def delete_notin_dom)
qed

text \<open>
  On the demo page: unmounting container 1 before anything is mounted changes nothing;
  after the scan it unmounts root 0 and empties the table; and when \<^verbatim>\<open>unmount()\<close> of
  root 0 throws, the call ends with the exception and the entry is still there.
\<close>

theorem C7_unmountWidget_witness:
  "map_get (activeRoots (initialState :: RootEntry engine_state)) 1 = None \<and>
   unmountWidget demoEnv 1 initialState = (Normal, initialState) \<and>
   map_get (activeRoots productCardMounted) 1 = Some \<lparr>root = 0, componentName = ''ProductCard''\<rparr> \<and>
   \<not> unmountThrows demoEnv 0 \<and>
   fst (unmountWidget demoEnv 1 productCardMounted) = Normal \<and>
   activeRoots (snd (unmountWidget demoEnv 1 productCardMounted)) = [] \<and>
   unmountCalls (trace (snd (unmountWidget demoEnv 1 productCardMounted))) = [0] \<and>
   unmountWidget demoEnv 1 (snd (unmountWidget demoEnv 1 productCardMounted)) =
     (Normal, snd (unmountWidget demoEnv 1 productCardMounted)) \<and>
   unmountThrows throwingEnv 0 \<and>
   unmountWidget throwingEnv 1 productCardMounted =
     (Thrown, productCardMounted\<lparr>trace := trace productCardMounted @ [RootUnmount 0 Thrown]\<rparr>) \<and>
   map_get (activeRoots (snd (unmountWidget throwingEnv 1 productCardMounted))) 1 =
     Some \<lparr>root = 0, componentName = ''ProductCard''\<rparr>"
proof -
  let ?e = "\<lparr>root = 0, componentName = ''ProductCard''\<rparr>"
  have a: "map_get (activeRoots (initialState :: RootEntry engine_state)) 1 = None"
    by (simp add: initialState_def map_get_def)
  have b: "map_get (activeRoots productCardMounted) 1 = Some ?e"
    by (simp add: productCardMounted_eq map_get_def)
  have c: "\<not> unmountThrows demoEnv (root ?e)"
    by (simp add: demoEnv_def)
  have t: "unmountThrows throwingEnv (root ?e)"
    by (simp add: throwingEnv_def demoEnv_def)
  from C7_unmountWidget_noop_destroys_or_throws
         [where s = "initialState :: RootEntry engine_state" and cid = 1 and E = demoEnv] a
  have r1: "unmountWidget demoEnv 1 initialState = (Normal, initialState)"
    by blast
  from C7_unmountWidget_noop_destroys_or_throws
         [where s = productCardMounted and cid = 1 and E = demoEnv and entry = ?e] b c
  have r2: "unmountWidget demoEnv 1 productCardMounted =
        (Normal,
         productCardMounted\<lparr>activeRoots := map_delete 1 (activeRoots productCardMounted),
           trace := trace productCardMounted @
             [RootUnmount (root ?e) Normal, ConsoleLog (Unmounted (componentName ?e))]\<rparr>)"
    and r3: "unmountCalls (trace (snd (unmountWidget demoEnv 1 productCardMounted))) =
        unmountCalls (trace productCardMounted) @ [root ?e]"
    and r4: "unmountWidget demoEnv 1 (snd (unmountWidget demoEnv 1 productCardMounted)) =
        (Normal, snd (unmountWidget demoEnv 1 productCardMounted))"
    by blast+
  from C7_unmountWidget_noop_destroys_or_throws
         [where s = productCardMounted and cid = 1 and E = throwingEnv and entry = ?e] b t
  have r5: "unmountWidget throwingEnv 1 productCardMounted =
        (Thrown, productCardMounted\<lparr>trace := trace productCardMounted @ [RootUnmount (root ?e) Thrown]\<rparr>)"
    and r6: "map_get (activeRoots (snd (unmountWidget throwingEnv 1 productCardMounted))) 1 = Some ?e"
    by blast+
  have d: "map_delete 1 (activeRoots productCardMounted) = []"
    by (simp add: productCardMounted_eq map_delete_def)
  have e: "unmountCalls (trace productCardMounted) = []"
    by (simp add: productCardMounted_eq)
  have f: "fst (unmountWidget demoEnv 1 productCardMounted) = Normal"
    and g: "activeRoots (snd (unmountWidget demoEnv 1 productCardMounted)) = []"
    unfolding r2 using d by simp_all
  have h: "unmountCalls (trace (snd (unmountWidget demoEnv 1 productCardMounted))) = [0]"
    unfolding r3 using e by simp
  have c': "\<not> unmountThrows demoEnv 0"
    using c by simp
  have t': "unmountThrows throwingEnv 0"
    using t by simp
  have r5': "unmountWidget throwingEnv 1 productCardMounted =
     (Thrown, productCardMounted\<lparr>trace := trace productCardMounted @ [RootUnmount 0 Thrown]\<rparr>)"
    using r5 by simp
  from a r1 b c' f g h r4 t' r5' r6 show ?thesis by (intro conjI)
qed

text \<open>
  C7 as stated fails: container 1 of the demo page is tracked, \<^verbatim>\<open>unmount()\<close> of its
  root throws, and \<^verbatim>\<open>unmountWidget\<close> ends with the exception and container 1 still
  tracked.
\<close>

theorem C7_counterexample:
  "map_has (activeRoots productCardMounted) 1 \<and>
   fst (unmountWidget throwingEnv 1 productCardMounted) = Thrown \<and>
   activeRoots (snd (unmountWidget throwingEnv 1 productCardMounted)) =
     activeRoots productCardMounted \<and>
   map_has (activeRoots (snd (unmountWidget throwingEnv 1 productCardMounted))) 1"
  by (simp add: productCardMounted_eq unmountWidget_def js_defs throwingEnv_def demoEnv_def)

subsection \<open>C8: absent or empty \<^verbatim>\<open>data-props\<close>\<close>

text \<open>
  C8: for every container that is not yet tracked, names a component the registry
  resolves and has no \<^verbatim>\<open>data-props\<close> attribute or an empty one, \<^verbatim>\<open>mountWidget\<close> of
  \<^verbatim>\<open>main.tsx\<close> takes the configuration to be \<^verbatim>\<open>{}\<close>: \<^verbatim>\<open>parseProps\<close> returns the empty
  object without calling \<^verbatim>\<open>JSON.parse\<close>, a new root renders StrictMode, Suspense and the
  component with no props at all, the container is tracked, and no warning or error is
  written. The mount script of the technical design parses the text \<^verbatim>\<open>'{}'\<close> instead and
  does the same, given that \<^verbatim>\<open>JSON.parse('{}')\<close> is the empty object.
\<close>

theorem C8_absent_or_empty_props_mount_with_empty_object:
  assumes "\<not> map_has (activeRoots s) (nodeId c)"
    and "widgetComponent c = Some name" and "name \<noteq> []"
    and "registry_get (registry E) name = Some C"
    and "props c = None \<or> props c = Some []"
  shows "parseProps E (props c) s = (JObject [], s) \<and>
     mountWidget E c s =
       s\<lparr>activeRoots := activeRoots s @ [(nodeId c, \<lparr>root = nextRoot s, componentName = name\<rparr>)],
         nextRoot := Suc (nextRoot s),
         trace := trace s @
           [CreateRoot (nextRoot s) (nodeId c),
            RootRender (nextRoot s)
              (StrictMode (Suspense (Div ''skeleton-loader'' []) (ComponentEl C []))),
            ConsoleLog (Mounted name)]\<rparr> \<and>
     diagnostics (drop (length (trace s)) (trace (mountWidget E c s))) = [] \<and>
     (\<not> map_has (activeRoots t) (nodeId c) \<and> jsonParse E ''{}'' = Some (JObject []) \<longrightarrow>
        mountWidget_td E c t =
          t\<lparr>activeRoots := activeRoots t @ [(nodeId c, nextRoot t)],
            nextRoot := Suc (nextRoot t),
            trace := trace t @
              [CreateRoot (nextRoot t) (nodeId c),
               RootRender (nextRoot t)
                 (StrictMode
                    (Suspense (Div ''skeleton-loader'' ''Loading...'') (ComponentEl C [])))]\<rparr>)"
proof -
  from assms(2,3) have name: "truthy (widgetComponent c) = Some name"
    by (simp add: truthy_Some_iff)
  from assms(5) have empty: "truthy (props c) = None"
    by (simp add: truthy_None_iff)
  have parse: "parseProps E (props c) s = (JObject [], s)"
    using empty by (simp add: parseProps_def)
  have mount: "mountWidget E c s =
       s\<lparr>activeRoots := activeRoots s @ [(nodeId c, \<lparr>root = nextRoot s, componentName = name\<rparr>)],
         nextRoot := Suc (nextRoot s),
         trace := trace s @
           [CreateRoot (nextRoot s) (nodeId c),
            RootRender (nextRoot s)
              (StrictMode (Suspense (Div ''skeleton-loader'' []) (ComponentEl C []))),
            ConsoleLog (Mounted name)]\<rparr>"
    using assms(1) name assms(4) empty
    by (simp add: mountWidget_mounts parseEffects_def parsedValue_def widgetTree_def)
  have quiet: "diagnostics (drop (length (trace s)) (trace (mountWidget E c s))) = []"
    by (simp add: mount diagnostics_def)
  have key: "propertyKey (widgetComponent c) = name"
    using assms(2) by (simp add: propertyKey_def)
  have src: "orElse (props c) ''{}'' = ''{}''"
    using empty by (simp add: orElse_def)
  have td: "mountWidget_td E c t =
          t\<lparr>activeRoots := activeRoots t @ [(nodeId c, nextRoot t)],
            nextRoot := Suc (nextRoot t),
            trace := trace t @
              [CreateRoot (nextRoot t) (nodeId c),
               RootRender (nextRoot t)
                 (StrictMode
                    (Suspense (Div ''skeleton-loader'' ''Loading...'') (ComponentEl C [])))]\<rparr>"
    if "\<not> map_has (activeRoots t) (nodeId c)" and "jsonParse E ''{}'' = Some (JObject [])"
    using that assms(4) by (simp add: mountWidget_td_mounts key src widgetTree_td_def)
  from parse mount quiet td show ?thesis by blast
qed

text \<open>
  The demo's Calculator container, whose \<^verbatim>\<open>data-props\<close> is the empty string, on the
  empty page.
\<close>

theorem C8_empty_props_witness:
  "\<not> map_has (activeRoots (initialState :: RootEntry engine_state)) (nodeId calculatorContainer) \<and>
   widgetComponent calculatorContainer = Some ''Calculator'' \<and>
   registry_get (registry demoEnv) ''Calculator'' = Some (Lazy ''./components/Calculator'') \<and>
   props calculatorContainer = Some [] \<and>
   jsonParse demoEnv ''{}'' = Some (JObject []) \<and>
   mountWidget demoEnv calculatorContainer initialState =
     \<lparr>activeRoots = [(2, \<lparr>root = 0, componentName = ''Calculator''\<rparr>)], nextRoot = 1,
      trace = [CreateRoot 0 2,
               RootRender 0
                 (StrictMode (Suspense (Div ''skeleton-loader'' [])
                    (ComponentEl (Lazy ''./components/Calculator'') []))),
               ConsoleLog (Mounted ''Calculator'')]\<rparr> \<and>
   mountWidget_td demoEnv calculatorContainer initialState =
     \<lparr>activeRoots = [(2, 0)], nextRoot = 1,
      trace = [CreateRoot 0 2,
               RootRender 0
                 (StrictMode (Suspense (Div ''skeleton-loader'' ''Loading...'')
                    (ComponentEl (Lazy ''./components/Calculator'') [])))]\<rparr>"
proof -
  have h1: "\<not> map_has (activeRoots (initialState :: RootEntry engine_state)) (nodeId calculatorContainer)"
    by (simp add: initialState_def map_has_def)
  have h1': "\<not> map_has (activeRoots (initialState :: nat engine_state)) (nodeId calculatorContainer)"
    by (simp add: initialState_def map_has_def)
  have h2: "widgetComponent calculatorContainer = Some ''Calculator''"
    by (simp add: calculatorContainer_def)
  have h3: "''Calculator'' \<noteq> []" by simp
  have h4: "registry_get (registry demoEnv) ''Calculator'' = Some (Lazy ''./components/Calculator'')"
    by (simp add: demoEnv_def demoRegistry_def registry_get_def)
  have h5: "props calculatorContainer = None \<or> props calculatorContainer = Some []"
    by (simp add: calculatorContainer_def)
  have h6: "jsonParse demoEnv ''{}'' = Some (JObject [])"
    by (simp add: demoEnv_def jsonParseSample_def)
  from C8_absent_or_empty_props_mount_with_empty_object
         [OF h1 h2 h3 h4 h5, where t = "initialState :: nat engine_state"]
       h1 h1' h2 h4 h6
  show ?thesis
    by (simp add: initialState_def calculatorContainer_def)
qed

subsection \<open>C9: at most one entry and one live root per container\<close>

text \<open>
  C9: the tracking invariant of \<^verbatim>\<open>main.tsx\<close> (one entry per container, the table holding
  exactly the live roots) holds at load time and is kept by every \<^verbatim>\<open>mountWidget\<close>, every
  \<^verbatim>\<open>unmountWidget\<close> (whether \<^verbatim>\<open>unmount()\<close> returns or throws), every scan and every
  \<^verbatim>\<open>cleanupAllWidgets\<close>. Under the invariant no container has two entries and no
  container has two live roots, whether a root on which \<^verbatim>\<open>unmount()\<close> threw is counted
  as live or not. A \<^verbatim>\<open>mountWidget\<close> on an already-tracked container returns from its
  guard: the table and the root counter are unchanged and only the warning is added, so no
  root is created; and an entry of the table is still there, unchanged, after any later
  \<^verbatim>\<open>mountWidget\<close>. The \<^verbatim>\<open>mountWidget\<close> of the technical design has the same guard and
  keeps the keys distinct.
\<close>

theorem C9_one_entry_and_one_live_root_per_container:
  assumes "tracked_live s"
  shows "tracked_live (initialState :: RootEntry engine_state) \<and>
     tracked_live (mountWidget E c s) \<and>
     tracked_live (snd (unmountWidget E cid s)) \<and>
     tracked_live (initializeWidgets E doc s) \<and>
     tracked_live (snd (cleanupAllWidgets E s)) \<and>
     distinct (map fst (activeRoots s)) \<and>
     distinct (map fst (liveRoots (trace s))) \<and>
     distinct (map fst (uncalledRoots (trace s))) \<and>
     (map_has (activeRoots s) (nodeId c) \<longrightarrow>
        activeRoots (mountWidget E c s) = activeRoots s \<and>
        nextRoot (mountWidget E c s) = nextRoot s \<and>
        trace (mountWidget E c s) = trace s @ [ConsoleWarn (AlreadyMounted (nodeId c))]) \<and>
     (map_get (activeRoots s) k = Some e \<longrightarrow>
        map_get (activeRoots (mountWidget E c s)) k = Some e) \<and>
     (distinct (map fst (activeRoots t)) \<longrightarrow>
        distinct (map fst (activeRoots (mountWidget_td E c t)))) \<and>
     (map_has (activeRoots t) (nodeId c) \<longrightarrow>
        activeRoots (mountWidget_td E c t) = activeRoots t \<and>
        nextRoot (mountWidget_td E c t) = nextRoot t \<and>
        trace (mountWidget_td E c t) = trace t @ [ConsoleWarn (AlreadyMounted (nodeId c))])"
proof -
  from assms have keys: "distinct (map fst (activeRoots s))"
    by (simp add: tracked_live_def)
  have guard: "activeRoots (mountWidget E c s) = activeRoots s \<and>
        nextRoot (mountWidget E c s) = nextRoot s \<and>
        trace (mountWidget E c s) = trace s @ [ConsoleWarn (AlreadyMounted (nodeId c))]"
    if "map_has (activeRoots s) (nodeId c)"
    using that by (simp add: mountWidget_tracked emit_def)
  have guard_td: "activeRoots (mountWidget_td E c t) = activeRoots t \<and>
        nextRoot (mountWidget_td E c t) = nextRoot t \<and>
        trace (mountWidget_td E c t) = trace t @ [ConsoleWarn (AlreadyMounted (nodeId c))]"
    if "map_has (activeRoots t) (nodeId c)"
    using that by (simp add: mountWidget_td_def emit_def)
  show ?thesis
    using tracked_live_initialState mountWidget_tracked_live [OF assms]
      unmountWidget_tracked_live [OF assms] initializeWidgets_tracked_live [OF assms]
      cleanupAllWidgets_tracked_live [OF assms] keys tracked_live_one_root [OF assms]
      guard mountWidget_keeps_entry mountWidget_td_distinct guard_td
    by blast
qed

text \<open>
  The demo page after its scan, with ProductCard in container 1 under root 0: mounting
  container 1 again only warns, mounting a second container leaves the entry of
  container 1 as it is, unmounting container 1 leaves no live root; and after an
  \<^verbatim>\<open>unmount()\<close> that throws the invariant still holds, with the entry kept.
\<close>

theorem C9_tracking_witness:
  "tracked_live productCardMounted \<and>
   tracked_live (mountWidget demoEnv productCardContainer productCardMounted) \<and>
   fst (unmountWidget demoEnv 1 productCardMounted) = Normal \<and>
   tracked_live (snd (unmountWidget demoEnv 1 productCardMounted)) \<and>
   fst (unmountWidget throwingEnv 1 productCardMounted) = Thrown \<and>
   tracked_live (snd (unmountWidget throwingEnv 1 productCardMounted)) \<and>
   liveRoots (trace (snd (unmountWidget throwingEnv 1 productCardMounted))) = [(1, 0)] \<and>
   uncalledRoots (trace (snd (unmountWidget throwingEnv 1 productCardMounted))) = [] \<and>
   tracked_live (initializeWidgets demoEnv [productCardContainer] productCardMounted) \<and>
   tracked_live (snd (cleanupAllWidgets throwingEnv productCardMounted)) \<and>
   liveRoots (trace productCardMounted) = [(1, 0)] \<and>
   uncalledRoots (trace productCardMounted) = [(1, 0)] \<and>
   map_has (activeRoots productCardMounted) (nodeId productCardContainer) \<and>
   activeRoots (mountWidget demoEnv productCardContainer productCardMounted) =
     [(1, \<lparr>root = 0, componentName = ''ProductCard''\<rparr>)] \<and>
   nextRoot (mountWidget demoEnv productCardContainer productCardMounted) = 1 \<and>
   trace (mountWidget demoEnv productCardContainer productCardMounted) =
     trace productCardMounted @ [ConsoleWarn (AlreadyMounted 1)] \<and>
   map_get (activeRoots productCardMounted) 1 =
     Some \<lparr>root = 0, componentName = ''ProductCard''\<rparr> \<and>
   map_get (activeRoots (mountWidget demoEnv arrayContainer productCardMounted)) 1 =
     Some \<lparr>root = 0, componentName = ''ProductCard''\<rparr> \<and>
   map_has (activeRoots twoWidgets_td) (nodeId productCardContainer) \<and>
   distinct (map fst (activeRoots twoWidgets_td)) \<and>
   activeRoots (mountWidget_td demoEnv productCardContainer twoWidgets_td) = [(1, 0), (2, 1)]"
proof -
  have inv: "tracked_live productCardMounted"
    by (simp add: productCardMounted_eq tracked_live_def trackedRoots_def liveRoots_def
        liveStep_def uncalledRoots_def uncalledStep_def)
  have ret: "fst (unmountWidget demoEnv 1 productCardMounted) = Normal"
    by (simp add: productCardMounted_eq unmountWidget_def Let_def js_defs demoEnv_def)
  have thr: "snd (unmountWidget throwingEnv 1 productCardMounted) =
      productCardMounted\<lparr>trace := trace productCardMounted @ [RootUnmount 0 Thrown]\<rparr>"
    and thr_out: "fst (unmountWidget throwingEnv 1 productCardMounted) = Thrown"
    by (simp_all add: productCardMounted_eq unmountWidget_def js_defs throwingEnv_def demoEnv_def)
  have live_thr: "liveRoots (trace (snd (unmountWidget throwingEnv 1 productCardMounted))) = [(1, 0)]"
    and uncalled_thr: "uncalledRoots (trace (snd (unmountWidget throwingEnv 1 productCardMounted))) = []"
    unfolding thr
    by (simp_all add: productCardMounted_eq liveRoots_def liveStep_def uncalledRoots_def
        uncalledStep_def)
  have has: "map_has (activeRoots productCardMounted) (nodeId productCardContainer)"
    by (simp add: productCardMounted_eq productCardContainer_def map_has_def)
  have has_td: "map_has (activeRoots twoWidgets_td) (nodeId productCardContainer)"
    by (simp add: twoWidgets_td_eq productCardContainer_def map_has_def)
  have keys_td: "distinct (map fst (activeRoots twoWidgets_td))"
    by (simp add: twoWidgets_td_eq)
  have live: "liveRoots (trace productCardMounted) = [(1, 0)]"
    and uncalled: "uncalledRoots (trace productCardMounted) = [(1, 0)]"
    by (simp_all add: productCardMounted_eq liveRoots_def liveStep_def uncalledRoots_def
        uncalledStep_def)
  have tbl: "activeRoots productCardMounted = [(1, \<lparr>root = 0, componentName = ''ProductCard''\<rparr>)]"
    and cnt: "nextRoot productCardMounted = 1"
    and tbl_td: "activeRoots twoWidgets_td = [(1, 0), (2, 1)]"
    and node: "nodeId productCardContainer = 1"
    by (simp_all add: productCardMounted_eq twoWidgets_td_eq productCardContainer_def)
  have kept: "map_get (activeRoots productCardMounted) 1 =
      Some \<lparr>root = 0, componentName = ''ProductCard''\<rparr>"
    by (simp add: productCardMounted_eq map_get_def)
  from C9_one_entry_and_one_live_root_per_container
         [OF inv, where E = demoEnv and c = arrayContainer and k = 1
            and e = "\<lparr>root = 0, componentName = ''ProductCard''\<rparr>"]
       kept
  have later: "map_get (activeRoots (mountWidget demoEnv arrayContainer productCardMounted)) 1 =
      Some \<lparr>root = 0, componentName = ''ProductCard''\<rparr>"
    by blast
  from C9_one_entry_and_one_live_root_per_container
         [OF inv, where E = throwingEnv and cid = 1]
  have after_throw: "tracked_live (snd (unmountWidget throwingEnv 1 productCardMounted))"
    and after_cleanup: "tracked_live (snd (cleanupAllWidgets throwingEnv productCardMounted))"
    by blast+
  from C9_one_entry_and_one_live_root_per_container
         [OF inv, where E = demoEnv and c = productCardContainer and cid = 1
            and t = twoWidgets_td and doc = "[productCardContainer]"]
       inv ret has has_td keys_td
  have quiet: "tracked_live (mountWidget demoEnv productCardContainer productCardMounted)"
    "tracked_live (snd (unmountWidget demoEnv 1 productCardMounted))"
    "tracked_live (initializeWidgets demoEnv [productCardContainer] productCardMounted)"
    "activeRoots (mountWidget demoEnv productCardContainer productCardMounted) =
       activeRoots productCardMounted"
    "nextRoot (mountWidget demoEnv productCardContainer productCardMounted) =
       nextRoot productCardMounted"
    "trace (mountWidget demoEnv productCardContainer productCardMounted) =
       trace productCardMounted @ [ConsoleWarn (AlreadyMounted (nodeId productCardContainer))]"
    "activeRoots (mountWidget_td demoEnv productCardContainer twoWidgets_td) =
       activeRoots twoWidgets_td"
    by blast+
  show ?thesis
    using inv ret thr_out after_throw live_thr uncalled_thr after_cleanup live uncalled has
      kept later has_td keys_td quiet
    by (simp add: tbl cnt tbl_td node)
qed

subsection \<open>C10: \<^verbatim>\<open>data-props\<close> holding a JSON value that is not an object\<close>

text \<open>
  C10, as amended: the props are never checked for being an object. For every container
  that is not yet tracked, names a component the registry resolves and has a non-empty
  \<^verbatim>\<open>data-props\<close> text that \<^verbatim>\<open>JSON.parse\<close> accepts, whatever value \<open>v\<close> results (a
  number, an array, \<^verbatim>\<open>null\<close>, ...), \<^verbatim>\<open>parseProps\<close> returns \<open>v\<close>, \<^verbatim>\<open>mountWidget\<close>
  of \<^verbatim>\<open>main.tsx\<close> creates a root and tracks the container, and no warning or error is
  written. What the component is given is not \<open>v\<close> but the spread \<^verbatim>\<open>{...v}\<close>: the
  properties of an object, the elements of an array under their indices, the characters
  of a string under theirs, and no props at all for a number, a boolean or \<^verbatim>\<open>null\<close>.
  The mount script of the technical design does the same.
\<close>

theorem C10_any_json_value_is_spread_and_mounted:
  assumes "\<not> map_has (activeRoots s) (nodeId c)"
    and "widgetComponent c = Some name" and "name \<noteq> []"
    and "registry_get (registry E) name = Some C"
    and "props c = Some src" and "src \<noteq> []"
    and "jsonParse E src = Some v"
  shows "parseProps E (props c) s = (v, s) \<and>
     mountWidget E c s =
       s\<lparr>activeRoots := activeRoots s @ [(nodeId c, \<lparr>root = nextRoot s, componentName = name\<rparr>)],
         nextRoot := Suc (nextRoot s),
         trace := trace s @
           [CreateRoot (nextRoot s) (nodeId c),
            RootRender (nextRoot s)
              (StrictMode (Suspense (Div ''skeleton-loader'' []) (ComponentEl C (spreadProps v)))),
            ConsoleLog (Mounted name)]\<rparr> \<and>
     diagnostics (drop (length (trace s)) (trace (mountWidget E c s))) = [] \<and>
     (\<not> map_has (activeRoots t) (nodeId c) \<longrightarrow>
        mountWidget_td E c t =
          t\<lparr>activeRoots := activeRoots t @ [(nodeId c, nextRoot t)],
            nextRoot := Suc (nextRoot t),
            trace := trace t @
              [CreateRoot (nextRoot t) (nodeId c),
               RootRender (nextRoot t)
                 (StrictMode
                    (Suspense (Div ''skeleton-loader'' ''Loading...'')
                       (ComponentEl C (spreadProps v))))]\<rparr> \<and>
        diagnostics (drop (length (trace t)) (trace (mountWidget_td E c t))) = []) \<and>
     spreadProps (JObject kvs) = kvs \<and>
     spreadProps (JArray [x, y]) = [(''0'', x), (''1'', y)] \<and>
     spreadProps (JString [ch, ch']) = [(''0'', JString [ch]), (''1'', JString [ch'])] \<and>
     spreadProps (JNumber n) = [] \<and>
     spreadProps (JBool b) = [] \<and>
     spreadProps JNull = []"
proof -
  from assms(2,3) have name: "truthy (widgetComponent c) = Some name"
    by (simp add: truthy_Some_iff)
  from assms(5,6) have given: "truthy (props c) = Some src"
    by (simp add: truthy_Some_iff)
  have parse: "parseProps E (props c) s = (v, s)"
    using given assms(7) by (simp add: parseProps_def)
  have mount: "mountWidget E c s =
       s\<lparr>activeRoots := activeRoots s @ [(nodeId c, \<lparr>root = nextRoot s, componentName = name\<rparr>)],
         nextRoot := Suc (nextRoot s),
         trace := trace s @
           [CreateRoot (nextRoot s) (nodeId c),
            RootRender (nextRoot s)
              (StrictMode (Suspense (Div ''skeleton-loader'' []) (ComponentEl C (spreadProps v)))),
            ConsoleLog (Mounted name)]\<rparr>"
    using assms(1) name assms(4) given assms(7)
    by (simp add: mountWidget_mounts parseEffects_def parsedValue_def widgetTree_def)
  have quiet: "diagnostics (drop (length (trace s)) (trace (mountWidget E c s))) = []"
    by (simp add: mount diagnostics_def)
  have key: "propertyKey (widgetComponent c) = name"
    using assms(2) by (simp add: propertyKey_def)
  have given_td: "orElse (props c) ''{}'' = src"
    using given by (simp add: orElse_def)
  have td: "mountWidget_td E c t =
          t\<lparr>activeRoots := activeRoots t @ [(nodeId c, nextRoot t)],
            nextRoot := Suc (nextRoot t),
            trace := trace t @
              [CreateRoot (nextRoot t) (nodeId c),
               RootRender (nextRoot t)
                 (StrictMode
                    (Suspense (Div ''skeleton-loader'' ''Loading...'')
                       (ComponentEl C (spreadProps v))))]\<rparr>"
    if "\<not> map_has (activeRoots t) (nodeId c)"
    using that assms(4,7) by (simp add: mountWidget_td_mounts key given_td widgetTree_td_def)
  have quiet_td: "diagnostics (drop (length (trace t)) (trace (mountWidget_td E c t))) = []"
    if "\<not> map_has (activeRoots t) (nodeId c)"
    by (simp add: td [OF that] diagnostics_def)
  have spread: "spreadProps (JObject kvs) = kvs"
    "spreadProps (JArray [x, y]) = [(''0'', x), (''1'', y)]"
    "spreadProps (JString [ch, ch']) = [(''0'', JString [ch]), (''1'', JString [ch'])]"
    "spreadProps (JNumber n) = []" "spreadProps (JBool b) = []" "spreadProps JNull = []"
    by (simp_all add: indexed_def decimal_digit digit_def)
  from parse mount quiet td quiet_td spread show ?thesis by blast
qed

text \<open>
  A ProductCard container whose \<^verbatim>\<open>data-props\<close> is \<^verbatim>\<open>42\<close> and a Calculator container
  whose \<^verbatim>\<open>data-props\<close> is \<^verbatim>\<open>[1,2]\<close>, each on the empty page: both are mounted without a
  diagnostic; the number gives the component no props, the array gives it the props
  \<^verbatim>\<open>0\<close> and \<^verbatim>\<open>1\<close>.
\<close>

theorem C10_scalar_and_array_witness:
  "\<not> map_has (activeRoots (initialState :: RootEntry engine_state)) (nodeId scalarContainer) \<and>
   widgetComponent scalarContainer = Some ''ProductCard'' \<and>
   registry_get (registry demoEnv) ''ProductCard'' = Some (Lazy ''./components/ProductCard'') \<and>
   props scalarContainer = Some ''42'' \<and>
   jsonParse demoEnv ''42'' = Some (JNumber 42) \<and>
   mountWidget demoEnv scalarContainer initialState =
     \<lparr>activeRoots = [(1, \<lparr>root = 0, componentName = ''ProductCard''\<rparr>)], nextRoot = 1,
      trace = [CreateRoot 0 1,
               RootRender 0
                 (StrictMode (Suspense (Div ''skeleton-loader'' [])
                    (ComponentEl (Lazy ''./components/ProductCard'') []))),
               ConsoleLog (Mounted ''ProductCard'')]\<rparr> \<and>
   diagnostics (trace (mountWidget demoEnv scalarContainer initialState)) = [] \<and>
   widgetComponent arrayContainer = Some ''Calculator'' \<and>
   registry_get (registry demoEnv) ''Calculator'' = Some (Lazy ''./components/Calculator'') \<and>
   props arrayContainer = Some ''[1,2]'' \<and>
   jsonParse demoEnv ''[1,2]'' = Some (JArray [JNumber 1, JNumber 2]) \<and>
   mountWidget_td demoEnv arrayContainer initialState =
     \<lparr>activeRoots = [(2, 0)], nextRoot = 1,
      trace = [CreateRoot 0 2,
               RootRender 0
                 (StrictMode (Suspense (Div ''skeleton-loader'' ''Loading...'')
                    (ComponentEl (Lazy ''./components/Calculator'')
                       [(''0'', JNumber 1), (''1'', JNumber 2)])))]\<rparr>"
proof -
  have a1: "\<not> map_has (activeRoots (initialState :: RootEntry engine_state)) (nodeId scalarContainer)"
    by (simp add: initialState_def map_has_def)
  have a2: "widgetComponent scalarContainer = Some ''ProductCard''"
    and a5: "props scalarContainer = Some ''42''"
    by (simp_all add: scalarContainer_def)
  have a3: "''ProductCard'' \<noteq> []" and a6: "''42'' \<noteq> []" by simp_all
  have a4: "registry_get (registry demoEnv) ''ProductCard'' = Some (Lazy ''./components/ProductCard'')"
    by (simp add: demoEnv_def demoRegistry_def registry_get_def)
  have a7: "jsonParse demoEnv ''42'' = Some (JNumber 42)"
    by (simp add: demoEnv_def jsonParseSample_def)
  have b1: "\<not> map_has (activeRoots (initialState :: RootEntry engine_state)) (nodeId arrayContainer)"
    and b1': "\<not> map_has (activeRoots (initialState :: nat engine_state)) (nodeId arrayContainer)"
    by (simp_all add: initialState_def map_has_def)
  have b2: "widgetComponent arrayContainer = Some ''Calculator''"
    and b5: "props arrayContainer = Some ''[1,2]''"
    by (simp_all add: arrayContainer_def)
  have b3: "''Calculator'' \<noteq> []" and b6: "''[1,2]'' \<noteq> []" by simp_all
  have b4: "registry_get (registry demoEnv) ''Calculator'' = Some (Lazy ''./components/Calculator'')"
    by (simp add: demoEnv_def demoRegistry_def registry_get_def)
  have b7: "jsonParse demoEnv ''[1,2]'' = Some (JArray [JNumber 1, JNumber 2])"
    by (simp add: demoEnv_def jsonParseSample_def)
  from C10_any_json_value_is_spread_and_mounted [OF a1 a2 a3 a4 a5 a6 a7]
  have scalar: "mountWidget demoEnv scalarContainer initialState =
     \<lparr>activeRoots = [(1, \<lparr>root = 0, componentName = ''ProductCard''\<rparr>)], nextRoot = 1,
      trace = [CreateRoot 0 1,
               RootRender 0
                 (StrictMode (Suspense (Div ''skeleton-loader'' [])
                    (ComponentEl (Lazy ''./components/ProductCard'') []))),
               ConsoleLog (Mounted ''ProductCard'')]\<rparr>"
    by (simp add: initialState_def scalarContainer_def)
  from C10_any_json_value_is_spread_and_mounted
         [OF b1 b2 b3 b4 b5 b6 b7, where t = "initialState :: nat engine_state"
            and x = "JNumber 1" and y = "JNumber 2"] b1'
  have array: "mountWidget_td demoEnv arrayContainer initialState =
     \<lparr>activeRoots = [(2, 0)], nextRoot = 1,
      trace = [CreateRoot 0 2,
               RootRender 0
                 (StrictMode (Suspense (Div ''skeleton-loader'' ''Loading...'')
                    (ComponentEl (Lazy ''./components/Calculator'')
                       [(''0'', JNumber 1), (''1'', JNumber 2)])))]\<rparr>"
    by (simp add: initialState_def arrayContainer_def)
  have quiet: "diagnostics (trace (mountWidget demoEnv scalarContainer initialState)) = []"
    unfolding scalar by (simp add: diagnostics_def)
  from a1 a2 a4 a5 a7 scalar quiet b2 b4 b5 b7 array show ?thesis by (intro conjI)
qed

text \<open>
  C10 as stated fails: with \<^verbatim>\<open>data-props="42"\<close> the value 42 is parsed but not passed
  to the component. The element rendered carries no props, the same element as for the
  container with no \<^verbatim>\<open>data-props\<close> at all.
\<close>

theorem C10_counterexample:
  "parseProps demoEnv (props scalarContainer) (initialState :: RootEntry engine_state) =
     (JNumber 42, initialState) \<and>
   trace (mountWidget demoEnv scalarContainer initialState) =
     [CreateRoot 0 1,
      RootRender 0
        (StrictMode (Suspense (Div ''skeleton-loader'' [])
           (ComponentEl (Lazy ''./components/ProductCard'') []))),
      ConsoleLog (Mounted ''ProductCard'')] \<and>
   props productCardContainer = None \<and>
   trace (mountWidget demoEnv productCardContainer initialState) =
     trace (mountWidget demoEnv scalarContainer initialState)"
  by (simp add: mountWidget_def parseProps_def js_defs sample_defs)

end
